theory Spec2Isabelle
  imports Complex_Main "HOL-Library.AList"
begin

section \<open>JavaScript values and text helpers\<close>

text \<open>
  Tool arguments arrive as parsed JSON and nothing checks them against the tool's
  parameter schema, so an argument of the planning tool may be any JSON value; the tool
  checks \<open>steps\<close> at run time with \<open>Array.isArray\<close> and \<open>typeof step === "string"\<close>, and
  \<open>step_index\<close> with \<open>=== null\<close>, \<open>< 0\<close> and \<open>>= length\<close> only.  \<open>truthy\<close> is JavaScript's
  conversion to boolean.  A \<open>JNum\<close> holds an integer: numbers with a fraction, and the
  rounding of integers beyond \<open>2^53\<close>, are outside the model.
\<close>

datatype jsval =
    JNull
  | JBool bool
  | JNum int
  | JStr string
  | JArr "jsval list"
  | JObj "(string \<times> jsval) list"

fun truthy :: "jsval \<Rightarrow> bool" where
  "truthy JNull = False"
| "truthy (JBool b) = b"
| "truthy (JNum n) = (n \<noteq> 0)"
| "truthy (JStr s) = (s \<noteq> [])"
| "truthy (JArr xs) = True"
| "truthy (JObj kvs) = True"

fun isArray :: "jsval \<Rightarrow> bool" where
  "isArray (JArr xs) = True"
| "isArray v = False"

fun elements :: "jsval \<Rightarrow> jsval list" where
  "elements (JArr xs) = xs"
| "elements v = []"

fun isString :: "jsval \<Rightarrow> bool" where
  "isString (JStr s) = True"
| "isString v = False"

fun asString :: "jsval \<Rightarrow> string" where
  "asString (JStr s) = s"
| "asString v = []"

text \<open>A \<open>string | null\<close> parameter tested with \<open>!x\<close>: null and the empty string are falsy.\<close>

fun given :: "string option \<Rightarrow> bool" where
  "given None = False"
| "given (Some s) = (s \<noteq> [])"

definition nl :: string where
  "nl = [CHR 0x0A]"

definition sq :: string where
  "sq = [CHR 0x27]"

definition digit :: "nat \<Rightarrow> char" where
  "digit d = ''0123456789'' ! d"

fun show_nat :: "nat \<Rightarrow> string" where
  "show_nat n = (if n < 10 then [digit n] else show_nat (n div 10) @ [digit (n mod 10)])"

declare show_nat.simps [simp del]

definition show_int :: "int \<Rightarrow> string" where
  "show_int i = (if i < 0 then CHR ''-'' # show_nat (nat (- i)) else show_nat (nat i))"

text \<open>\<open>Array.prototype.join\<close> on texts.\<close>

fun join :: "string \<Rightarrow> string list \<Rightarrow> string" where
  "join sep [] = []"
| "join sep [x] = x"
| "join sep (x # y # ys) = x @ sep @ join sep (y # ys)"

section \<open>What the code throws\<close>

text \<open>
  An \<open>Error\<close>, a \<open>ToolError\<close> (a subclass with its own name), the \<open>TypeError\<close> of reading
  a property of undefined or of converting an object that has no usable \<open>toString\<close>, and
  the \<open>RangeError\<close> of giving an array an invalid length.  \<open>String_exn\<close> is
  \<open>String(error)\<close>.
\<close>

datatype exn = Error string | ToolErr string | TypeError string | RangeError string

fun message :: "exn \<Rightarrow> string" where
  "message (Error m) = m"
| "message (ToolErr m) = m"
| "message (TypeError m) = m"
| "message (RangeError m) = m"

fun exn_name :: "exn \<Rightarrow> string" where
  "exn_name (Error m) = ''Error''"
| "exn_name (ToolErr m) = ''ToolError''"
| "exn_name (TypeError m) = ''TypeError''"
| "exn_name (RangeError m) = ''RangeError''"

definition String_exn :: "exn \<Rightarrow> string" where
  "String_exn e = (if message e = [] then exn_name e else exn_name e @ '': '' @ message e)"

section \<open>JavaScript's conversions\<close>

text \<open>
  \<open>ToString\<close>, as template literals, \<open>String(v)\<close>, \<open>+\<close> and property keys apply it.  An
  array is the join of its elements with commas, null elements giving the empty text.
  A parsed JSON object inherits \<open>toString\<close>, which prints \<open>[object Object]\<close>, unless it
  has a key \<open>toString\<close> of its own: that value is not a function, and the conversion
  throws a \<open>TypeError\<close>, here \<open>None\<close>.
\<close>

fun ToString :: "jsval \<Rightarrow> string option" where
  "ToString JNull = Some ''null''"
| "ToString (JBool b) = Some (if b then ''true'' else ''false'')"
| "ToString (JNum n) = Some (show_int n)"
| "ToString (JStr s) = Some s"
| "ToString (JArr xs) =
     map_option (join '','') (those (map (\<lambda>x. if x = JNull then Some [] else ToString x) xs))"
| "ToString (JObj kvs) =
     (if ''toString'' \<in> fst ` set kvs then None else Some ''[object Object]'')"

definition template_js :: "jsval \<Rightarrow> string" where
  "template_js v = (case ToString v of None \<Rightarrow> [] | Some s \<Rightarrow> s)"

text \<open>
  The numbers that a conversion can give: \<open>NaN\<close>, the infinities and the finite ones,
  kept exact.
\<close>

datatype jsnum = NaN | PosInfinity | NegInfinity | Fin rat

text \<open>
  \<open>StringToNumber\<close>: the text without the blanks around it is empty (0), a hexadecimal,
  octal or binary literal, a signed \<open>Infinity\<close>, or a signed decimal literal with an
  optional fraction and exponent; every other text is \<open>NaN\<close>.  Blanks are the ASCII
  ones.
\<close>

definition isWhite :: "char \<Rightarrow> bool" where
  "isWhite c = (c \<in> set [CHR 0x09, CHR 0x0A, CHR 0x0B, CHR 0x0C, CHR 0x0D, CHR 0x20])"

definition trim :: "string \<Rightarrow> string" where
  "trim s = rev (dropWhile isWhite (rev (dropWhile isWhite s)))"

definition radix_value :: "char \<Rightarrow> nat option" where
  "radix_value c =
     (let n = (of_char c :: nat) in
      if 48 \<le> n \<and> n \<le> 57 then Some (n - 48)
      else if 97 \<le> n \<and> n \<le> 102 then Some (n - 87)
      else if 65 \<le> n \<and> n \<le> 70 then Some (n - 55)
      else None)"

definition isDigitOf :: "nat \<Rightarrow> char \<Rightarrow> bool" where
  "isDigitOf r c = (case radix_value c of None \<Rightarrow> False | Some d \<Rightarrow> d < r)"

definition digits_value :: "nat \<Rightarrow> string \<Rightarrow> nat" where
  "digits_value r s = foldl (\<lambda>a c. a * r + the (radix_value c)) 0 s"

definition radix_literal :: "nat \<Rightarrow> string \<Rightarrow> jsnum" where
  "radix_literal r s =
     (if s \<noteq> [] \<and> list_all (isDigitOf r) s then Fin (of_nat (digits_value r s)) else NaN)"

definition exponent_part :: "string \<Rightarrow> int option" where
  "exponent_part s =
     (if s = [] then Some 0
      else if hd s = CHR ''e'' \<or> hd s = CHR ''E'' then
        (let r = tl s;
             neg = (r \<noteq> [] \<and> hd r = CHR ''-'');
             ds = (if r \<noteq> [] \<and> (hd r = CHR ''-'' \<or> hd r = CHR ''+'') then tl r else r)
         in if ds \<noteq> [] \<and> list_all (isDigitOf 10) ds
            then Some (if neg then - int (digits_value 10 ds) else int (digits_value 10 ds))
            else None)
      else None)"

definition decimal_literal :: "string \<Rightarrow> jsnum" where
  "decimal_literal s =
     (let ip = takeWhile (isDigitOf 10) s;
          r1 = dropWhile (isDigitOf 10) s;
          dot = (r1 \<noteq> [] \<and> hd r1 = CHR ''.'');
          fp = (if dot then takeWhile (isDigitOf 10) (tl r1) else []);
          r2 = (if dot then dropWhile (isDigitOf 10) (tl r1) else r1)
      in if ip = [] \<and> fp = [] then NaN
         else case exponent_part r2 of
                None \<Rightarrow> NaN
              | Some e \<Rightarrow>
                  (let m = (of_nat (digits_value 10 (ip @ fp)) :: rat);
                       k = e - int (length fp)
                   in Fin (if 0 \<le> k then m * 10 ^ nat k else m / 10 ^ nat (- k))))"

definition StringToNumber :: "string \<Rightarrow> jsnum" where
  "StringToNumber s =
     (let t = trim s in
      if t = [] then Fin 0
      else if take 2 t = ''0x'' \<or> take 2 t = ''0X'' then radix_literal 16 (drop 2 t)
      else if take 2 t = ''0o'' \<or> take 2 t = ''0O'' then radix_literal 8 (drop 2 t)
      else if take 2 t = ''0b'' \<or> take 2 t = ''0B'' then radix_literal 2 (drop 2 t)
      else
        (let neg = (hd t = CHR ''-'');
             u = (if hd t = CHR ''-'' \<or> hd t = CHR ''+'' then tl t else t)
         in if u = ''Infinity'' then (if neg then NegInfinity else PosInfinity)
            else case decimal_literal u of
                   Fin x \<Rightarrow> Fin (if neg then - x else x)
                 | other \<Rightarrow> other))"

text \<open>
  \<open>ToNumber\<close>, as the comparisons \<open><\<close> and \<open>>=\<close> with a number apply it: an array or an
  object is converted to its text first; \<open>None\<close> is the \<open>TypeError\<close> of \<open>ToString\<close>.
\<close>

fun ToNumber :: "jsval \<Rightarrow> jsnum option" where
  "ToNumber JNull = Some (Fin 0)"
| "ToNumber (JBool b) = Some (Fin (if b then 1 else 0))"
| "ToNumber (JNum n) = Some (Fin (of_int n))"
| "ToNumber (JStr s) = Some (StringToNumber s)"
| "ToNumber v = map_option StringToNumber (ToString v)"

text \<open>\<open>x < n\<close> and \<open>x >= n\<close> for an integer \<open>n\<close>: both are false of \<open>NaN\<close>.\<close>

fun js_lt :: "jsnum \<Rightarrow> int \<Rightarrow> bool" where
  "js_lt (Fin x) n = (x < of_int n)"
| "js_lt NegInfinity n = True"
| "js_lt num n = False"

fun js_ge :: "jsnum \<Rightarrow> int \<Rightarrow> bool" where
  "js_ge (Fin x) n = (x \<ge> of_int n)"
| "js_ge PosInfinity n = True"
| "js_ge num n = False"

text \<open>
  What an assignment \<open>array[key] = value\<close> does depends on the key's text: the decimal
  text of a natural number without a leading zero is an index, \<open>length\<close> is the array's
  length, and any other text names a property that no code here reads.  (An array has
  fewer than \<open>2^32 - 1\<close> elements, so the bound on indices is left out.)  A valid length
  is an integer from 0 to \<open>2^32 - 1\<close>.
\<close>

datatype key = Index nat | Length | Named

definition key_of_string :: "string \<Rightarrow> key" where
  "key_of_string k =
     (if k = ''length'' then Length
      else if k \<noteq> [] \<and> list_all (isDigitOf 10) k \<and> (hd k \<noteq> CHR ''0'' \<or> k = ''0'')
        then Index (digits_value 10 k)
      else Named)"

fun property_key :: "jsval \<Rightarrow> key" where
  "property_key (JNum n) = (if 0 \<le> n then Index (nat n) else Named)"
| "property_key (JStr s) = key_of_string s"
| "property_key JNull = Named"
| "property_key (JBool b) = Named"
| "property_key v = (case ToString v of None \<Rightarrow> Named | Some s \<Rightarrow> key_of_string s)"

fun array_length :: "jsnum \<Rightarrow> nat option" where
  "array_length (Fin x) =
     (if of_int \<lfloor>x\<rfloor> = x \<and> 0 \<le> x \<and> x \<le> 4294967295 then Some (nat \<lfloor>x\<rfloor>) else None)"
| "array_length num = None"

text \<open>
  \<open>a + b\<close>: arrays and objects are converted to their texts; if one side is then a text
  the two texts are concatenated, and otherwise the two numbers are added (null is 0,
  false 0 and true 1).  \<open>None\<close> is the \<open>TypeError\<close> of \<open>ToString\<close>.
\<close>

fun ToPrimitive :: "jsval \<Rightarrow> jsval option" where
  "ToPrimitive (JArr xs) = map_option JStr (ToString (JArr xs))"
| "ToPrimitive (JObj kvs) = map_option JStr (ToString (JObj kvs))"
| "ToPrimitive v = Some v"

fun number_of :: "jsval \<Rightarrow> int" where
  "number_of (JNum n) = n"
| "number_of (JBool b) = (if b then 1 else 0)"
| "number_of v = 0"

definition js_plus :: "jsval \<Rightarrow> jsval \<Rightarrow> jsval option" where
  "js_plus a b =
     (case ToPrimitive a of
        None \<Rightarrow> None
      | Some pa \<Rightarrow>
          (case ToPrimitive b of
             None \<Rightarrow> None
           | Some pb \<Rightarrow>
               Some (if isString pa \<or> isString pb then JStr (template_js pa @ template_js pb)
                     else JNum (number_of pa + number_of pb))))"

section \<open>The planning tool (src/tool/planning.ts)\<close>

datatype StepStatus = not_started | in_progress | completed | blocked

record Plan =
  plan_id :: string
  title :: string
  steps :: "string list"
  step_statuses :: "StepStatus list"
  step_notes :: "string list"

text \<open>
  The notes array can come to have holes, and notes that are undefined.  Every reader
  of a note (\<open>if (notes)\<close> in \<open>formatPlan\<close>, the copy in \<open>updatePlan\<close>) treats them as it
  treats the empty text, and the model writes them as the empty text.  \<open>note_at\<close> is the
  read \<open>notes[i]\<close>, undefined beyond the end.
\<close>

definition note_at :: "string list \<Rightarrow> nat \<Rightarrow> string" where
  "note_at notes i = (if i < length notes then notes ! i else [])"

text \<open>
  \<open>plans\<close> is a JavaScript \<open>Map\<close>: an association list with distinct keys in insertion
  order (\<open>AList.update\<close> keeps the position of an existing key and appends a new one,
  as \<open>Map.set\<close> does).
\<close>

record PlanningTool =
  plans :: "(string \<times> Plan) list"
  currentPlanId :: "string option"

definition new_PlanningTool :: PlanningTool where
  "new_PlanningTool = \<lparr> plans = [], currentPlanId = None \<rparr>"

text \<open>
  A successful command returns a \<open>ToolResult\<close> whose output is a text rendered from the
  values below (\<open>formatPlan\<close> prints the plan held here); the rendering itself, with its
  floating-point percentage, is not part of the model.
\<close>

datatype PlanningOutput =
    PlanCreated string Plan
  | PlanUpdated string Plan
  | NoPlans
  | PlanList "(string \<times> bool \<times> string \<times> nat \<times> nat) list"
  | PlanDetails Plan
  | PlanActivated string Plan
  | StepUpdated jsval string Plan
  | PlanDeleted string

type_synonym planning_result = "(exn + PlanningOutput) \<times> PlanningTool"

definition has :: "PlanningTool \<Rightarrow> string \<Rightarrow> bool" where
  "has t k = (map_of (plans t) k \<noteq> None)"

definition get :: "PlanningTool \<Rightarrow> string \<Rightarrow> Plan" where
  "get t k = the (map_of (plans t) k)"

definition status_of :: "string \<Rightarrow> StepStatus option" where
  "status_of s =
     (if s = ''not_started'' then Some not_started
      else if s = ''in_progress'' then Some in_progress
      else if s = ''completed'' then Some completed
      else if s = ''blocked'' then Some blocked
      else None)"

definition createPlan :: "PlanningTool \<Rightarrow> string option \<Rightarrow> string option \<Rightarrow> jsval \<Rightarrow> planning_result" where
  "createPlan t planId ttl stps =
     (if \<not> given planId then
        (Inl (ToolErr ''Parameter `plan_id` is required for command: create''), t)
      else if has t (the planId) then
        (Inl (ToolErr (''A plan with ID '' @ sq @ the planId @ sq @
                         '' already exists. Use '' @ sq @ ''update'' @ sq @
                         '' to modify existing plans.'')), t)
      else if \<not> given ttl then
        (Inl (ToolErr ''Parameter `title` is required for command: create''), t)
      else if \<not> truthy stps \<or> \<not> isArray stps \<or> \<not> list_all isString (elements stps) then
        (Inl (ToolErr ''Parameter `steps` must be a non-empty list of strings for command: create''), t)
      else
        (let ss = map asString (elements stps);
             plan = \<lparr> plan_id = the planId, title = the ttl, steps = ss,
                      step_statuses = replicate (length ss) not_started,
                      step_notes = replicate (length ss) [] \<rparr>
         in (Inr (PlanCreated (the planId) plan),
             t\<lparr> plans := AList.update (the planId) plan (plans t),
                currentPlanId := planId \<rparr>)))"

text \<open>
  The loop of \<open>updatePlan\<close>, \<open>for (let i = 0; i < steps.length; i++)\<close>, pushing one
  status and one note per round; \<open>k\<close> counts the rounds left, so \<open>i = length ss - k\<close>.
  The read \<open>oldStatuses[i]\<close> is in range: in every store the tool reaches a plan has as
  many statuses as steps.
\<close>

fun updateLoop :: "string list \<Rightarrow> Plan \<Rightarrow> nat \<Rightarrow> StepStatus list \<times> string list
                     \<Rightarrow> StepStatus list \<times> string list" where
  "updateLoop ss old 0 (newStatuses, newNotes) = (newStatuses, newNotes)"
| "updateLoop ss old (Suc k) (newStatuses, newNotes) =
     (let i = length ss - Suc k in
      if i < length (steps old) \<and> ss ! i = steps old ! i then
        updateLoop ss old k (newStatuses @ [step_statuses old ! i], newNotes @ [note_at (step_notes old) i])
      else
        updateLoop ss old k (newStatuses @ [not_started], newNotes @ ['''']))"

definition updatePlan :: "PlanningTool \<Rightarrow> string option \<Rightarrow> string option \<Rightarrow> jsval \<Rightarrow> planning_result" where
  "updatePlan t planId ttl stps =
     (if \<not> given planId then
        (Inl (ToolErr ''Parameter `plan_id` is required for command: update''), t)
      else if \<not> has t (the planId) then
        (Inl (ToolErr (''No plan found with ID: '' @ the planId)), t)
      else
        (let plan = get t (the planId);
             plan1 = (if given ttl then plan\<lparr> title := the ttl \<rparr> else plan);
             t1 = t\<lparr> plans := AList.update (the planId) plan1 (plans t) \<rparr>
         in if truthy stps then
              (if \<not> isArray stps \<or> \<not> list_all isString (elements stps) then
                 (Inl (ToolErr ''Parameter `steps` must be a list of strings for command: update''), t1)
               else
                 (let ss = map asString (elements stps);
                      (newStatuses, newNotes) = updateLoop ss plan1 (length ss) ([], []);
                      plan2 = plan1\<lparr> steps := ss, step_statuses := newStatuses,
                                     step_notes := newNotes \<rparr>
                  in (Inr (PlanUpdated (the planId) plan2),
                      t\<lparr> plans := AList.update (the planId) plan2 (plans t) \<rparr>)))
            else (Inr (PlanUpdated (the planId) plan1), t1)))"

definition listPlans :: "PlanningTool \<Rightarrow> planning_result" where
  "listPlans t =
     (if length (plans t) = 0 then (Inr NoPlans, t)
      else (Inr (PlanList (map (\<lambda>(planId, plan).
                    (planId, Some planId = currentPlanId t, title plan,
                     length (filter (\<lambda>status. status = completed) (step_statuses plan)),
                     length (steps plan))) (plans t))), t))"

definition getPlan :: "PlanningTool \<Rightarrow> string option \<Rightarrow> planning_result" where
  "getPlan t planId0 =
     (if \<not> given planId0 \<and> \<not> given (currentPlanId t) then
        (Inl (ToolErr ''No active plan. Please specify a plan_id or set an active plan.''), t)
      else
        (let planId = (if \<not> given planId0 then the (currentPlanId t) else the planId0) in
         if \<not> has t planId then
           (Inl (ToolErr (''No plan found with ID: '' @ planId)), t)
         else (Inr (PlanDetails (get t planId)), t)))"

definition setActivePlan :: "PlanningTool \<Rightarrow> string option \<Rightarrow> planning_result" where
  "setActivePlan t planId =
     (if \<not> given planId then
        (Inl (ToolErr ''Parameter `plan_id` is required for command: set_active''), t)
      else if \<not> has t (the planId) then
        (Inl (ToolErr (''No plan found with ID: '' @ the planId)), t)
      else
        (Inr (PlanActivated (the planId) (get t (the planId))), t\<lparr> currentPlanId := planId \<rparr>))"

text \<open>
  The two assignments of \<open>markStep\<close>.  A status is written at an index that passed the
  range check, which is in range of the statuses (in every store the tool reaches a plan
  has as many statuses as steps); a status name is not a number, so as a length it is
  invalid.  A note written beyond the end of the notes leaves holes before it, and as a
  length a note resizes the notes when it is the text of a valid length.
\<close>

fun set_status :: "StepStatus list \<Rightarrow> key \<Rightarrow> StepStatus \<Rightarrow> exn + StepStatus list" where
  "set_status statuses (Index i) v = Inr (statuses[i := v])"
| "set_status statuses Length v = Inl (RangeError ''Invalid array length'')"
| "set_status statuses Named v = Inr statuses"

fun set_note :: "string list \<Rightarrow> key \<Rightarrow> string \<Rightarrow> exn + string list" where
  "set_note notes (Index i) v =
     Inr (if i < length notes then notes[i := v]
          else notes @ replicate (i - length notes) [] @ [v])"
| "set_note notes Length v =
     (case array_length (StringToNumber v) of
        None \<Rightarrow> Inl (RangeError ''Invalid array length'')
      | Some n \<Rightarrow> Inr (take n notes @ replicate (n - length notes) []))"
| "set_note notes Named v = Inr notes"

text \<open>
  \<open>step_index\<close> is the parsed JSON value as it came: the code tests it with \<open>=== null\<close>,
  \<open>< 0\<close> and \<open>>= plan.steps.length\<close>, which convert it to a number and are both false of
  \<open>NaN\<close>, and then uses it as the property key of the two assignments.
\<close>

definition markStep :: "PlanningTool \<Rightarrow> string option \<Rightarrow> jsval \<Rightarrow> string option \<Rightarrow> string option
                         \<Rightarrow> planning_result" where
  "markStep t planId0 stepIndex stepStatus stepNotes =
     (if \<not> given planId0 \<and> \<not> given (currentPlanId t) then
        (Inl (ToolErr ''No active plan. Please specify a plan_id or set an active plan.''), t)
      else
        (let planId = (if \<not> given planId0 then the (currentPlanId t) else the planId0) in
         if \<not> has t planId then
           (Inl (ToolErr (''No plan found with ID: '' @ planId)), t)
         else if stepIndex = JNull then
           (Inl (ToolErr ''Parameter `step_index` is required for command: mark_step''), t)
         else
           (let plan = get t planId in
            case ToNumber stepIndex of
              None \<Rightarrow> (Inl (TypeError ''Cannot convert object to primitive value''), t)
            | Some num \<Rightarrow>
                if js_lt num 0 \<or> js_ge num (int (length (steps plan))) then
                  (Inl (ToolErr (''Invalid step_index: '' @ template_js stepIndex @
                                 ''. Valid indices range from 0 to '' @
                                 show_int (int (length (steps plan)) - 1) @ ''.'')), t)
                else if given stepStatus \<and> status_of (the stepStatus) = None then
                  (Inl (ToolErr (''Invalid step_status: '' @ the stepStatus @
                                 ''. Valid statuses are: not_started, in_progress, completed, blocked'')), t)
                else
                  (case (if given stepStatus
                         then set_status (step_statuses plan) (property_key stepIndex)
                                (the (status_of (the stepStatus)))
                         else Inr (step_statuses plan)) of
                     Inl e \<Rightarrow> (Inl e, t)
                   | Inr statuses \<Rightarrow>
                       (let plan1 = plan\<lparr> step_statuses := statuses \<rparr>;
                            t1 = t\<lparr> plans := AList.update planId plan1 (plans t) \<rparr>
                        in case (if given stepNotes
                                 then set_note (step_notes plan1) (property_key stepIndex) (the stepNotes)
                                 else Inr (step_notes plan1)) of
                             Inl e \<Rightarrow> (Inl e, t1)
                           | Inr notes \<Rightarrow>
                               (let plan2 = plan1\<lparr> step_notes := notes \<rparr>
                                in (Inr (StepUpdated stepIndex planId plan2),
                                    t\<lparr> plans := AList.update planId plan2 (plans t) \<rparr>)))))))"

definition deletePlan :: "PlanningTool \<Rightarrow> string option \<Rightarrow> planning_result" where
  "deletePlan t planId =
     (if \<not> given planId then
        (Inl (ToolErr ''Parameter `plan_id` is required for command: delete''), t)
      else if \<not> has t (the planId) then
        (Inl (ToolErr (''No plan found with ID: '' @ the planId)), t)
      else
        (Inr (PlanDeleted (the planId)),
         t\<lparr> plans := AList.delete (the planId) (plans t),
            currentPlanId := (if currentPlanId t = planId then None else currentPlanId t) \<rparr>))"

record PlanningArgs =
  arg_command :: string
  arg_plan_id :: "string option"
  arg_title :: "string option"
  arg_steps :: jsval
  arg_step_index :: jsval
  arg_step_status :: "string option"
  arg_step_notes :: "string option"

definition execute :: "PlanningTool \<Rightarrow> PlanningArgs \<Rightarrow> planning_result" where
  "execute t a =
     (if arg_command a = ''create'' then createPlan t (arg_plan_id a) (arg_title a) (arg_steps a)
      else if arg_command a = ''update'' then updatePlan t (arg_plan_id a) (arg_title a) (arg_steps a)
      else if arg_command a = ''list'' then listPlans t
      else if arg_command a = ''get'' then getPlan t (arg_plan_id a)
      else if arg_command a = ''set_active'' then setActivePlan t (arg_plan_id a)
      else if arg_command a = ''mark_step'' then
        markStep t (arg_plan_id a) (arg_step_index a) (arg_step_status a) (arg_step_notes a)
      else if arg_command a = ''delete'' then deletePlan t (arg_plan_id a)
      else (Inl (ToolErr (''Unrecognized command: '' @ arg_command a @
              ''. Allowed commands are: create, update, list, get, set_active, mark_step, delete'')), t))"

text \<open>A session with the tool: the commands run one after the other on the same store.\<close>

fun run_commands :: "PlanningTool \<Rightarrow> PlanningArgs list \<Rightarrow> PlanningTool" where
  "run_commands t [] = t"
| "run_commands t (a # as) = run_commands (snd (execute t a)) as"

definition plan_ok :: "Plan \<Rightarrow> bool" where
  "plan_ok p = (length (step_statuses p) = length (steps p) \<and> length (step_notes p) = length (steps p))"

definition store_ok :: "PlanningTool \<Rightarrow> bool" where
  "store_ok t = list_all (\<lambda>(k, p). plan_ok p) (plans t)"

definition statuses_ok :: "PlanningTool \<Rightarrow> bool" where
  "statuses_ok t = list_all (\<lambda>(k, p). length (step_statuses p) = length (steps p)) (plans t)"

text \<open>
  The step indices that the tool's parameter schema and the type of \<open>markStep\<close> declare:
  null or an integer.
\<close>

fun is_integer_or_null :: "jsval \<Rightarrow> bool" where
  "is_integer_or_null JNull = True"
| "is_integer_or_null (JNum n) = True"
| "is_integer_or_null v = False"


definition integer_index :: "PlanningArgs \<Rightarrow> bool" where
  "integer_index a = (arg_command a \<noteq> ''mark_step'' \<or> is_integer_or_null (arg_step_index a))"

section \<open>Tool results (src/tool/base.ts)\<close>

text \<open>
  \<open>output\<close> is declared \<open>any\<close>, \<open>error\<close> and \<open>system\<close> are declared \<open>string | null\<close>; at run
  time each holds what the constructor was given, and \<open>combine\<close> hands all three to one
  field combiner, which tests them with \<open>&&\<close> and \<open>||\<close> and joins them with \<open>+\<close>.
\<close>

record ToolResult =
  r_output :: jsval
  r_error :: jsval
  r_system :: jsval

definition hasContent :: "ToolResult \<Rightarrow> bool" where
  "hasContent r = (r_output r \<noteq> JNull \<or> r_error r \<noteq> JNull \<or> r_system r \<noteq> JNull)"

text \<open>A field that is null or a text.\<close>

fun is_text :: "jsval \<Rightarrow> bool" where
  "is_text JNull = True"
| "is_text (JStr s) = True"
| "is_text v = False"

definition combineFields :: "jsval \<Rightarrow> jsval \<Rightarrow> bool \<Rightarrow> exn + jsval" where
  "combineFields field otherField concatenate =
     (if truthy field \<and> truthy otherField then
        (if concatenate then
           (case js_plus field otherField of
              None \<Rightarrow> Inl (TypeError ''Cannot convert object to primitive value'')
            | Some v \<Rightarrow> Inr v)
         else Inl (Error ''Cannot combine tool results''))
      else Inr (if truthy field then field else otherField))"

definition combine :: "ToolResult \<Rightarrow> ToolResult \<Rightarrow> exn + ToolResult" where
  "combine this other =
     (case combineFields (r_output this) (r_output other) True of
        Inl e \<Rightarrow> Inl e
      | Inr out \<Rightarrow>
          (case combineFields (r_error this) (r_error other) True of
             Inl e \<Rightarrow> Inl e
           | Inr err \<Rightarrow>
               (case combineFields (r_system this) (r_system other) True of
                  Inl e \<Rightarrow> Inl e
                | Inr sys \<Rightarrow> Inr \<lparr> r_output = out, r_error = err, r_system = sys \<rparr>)))"

section \<open>Messages and memory (src/schema)\<close>

datatype AgentState = IDLE | RUNNING | FINISHED | ERROR

fun state_name :: "AgentState \<Rightarrow> string" where
  "state_name IDLE = ''IDLE''"
| "state_name RUNNING = ''RUNNING''"
| "state_name FINISHED = ''FINISHED''"
| "state_name ERROR = ''ERROR''"

datatype MessageRole = System | User | Assistant | Tool

record Function =
  fname :: string
  arguments :: string

record ToolCall =
  call_id :: string
  call_type :: string
  call_function :: Function

record Message =
  role :: MessageRole
  content :: "string option"
  tool_calls :: "ToolCall list option"
  msg_name :: "string option"
  tool_call_id :: "string option"

definition new_Message :: "MessageRole \<Rightarrow> string option \<Rightarrow> ToolCall list option \<Rightarrow> string option
                            \<Rightarrow> string option \<Rightarrow> Message" where
  "new_Message r c tcs n tid =
     \<lparr> role = r, content = c, tool_calls = tcs,
       msg_name = (if given n then n else None),
       tool_call_id = (if given tid then tid else None) \<rparr>"

definition userMessage :: "string \<Rightarrow> Message" where
  "userMessage c = new_Message User (Some c) None None None"

definition systemMessage :: "string \<Rightarrow> Message" where
  "systemMessage c = new_Message System (Some c) None None None"

definition assistantMessage :: "string option \<Rightarrow> Message" where
  "assistantMessage c = new_Message Assistant c None None None"

definition toolMessage :: "string \<Rightarrow> string \<Rightarrow> string \<Rightarrow> Message" where
  "toolMessage c n tid = new_Message Tool (Some c) None (Some n) (Some tid)"

definition fromToolCalls :: "ToolCall list \<Rightarrow> string option \<Rightarrow> Message" where
  "fromToolCalls tcs c = new_Message Assistant c (Some tcs) None None"

record Memory =
  messages :: "Message list"
  maxMessages :: int

definition new_Memory :: "int \<Rightarrow> Memory" where
  "new_Memory n = \<lparr> messages = [], maxMessages = n \<rparr>"

text \<open>\<open>Array.prototype.slice(start)\<close>: a negative start counts from the end.\<close>

definition slice :: "int \<Rightarrow> 'a list \<Rightarrow> 'a list" where
  "slice start xs =
     (if start < 0 then drop (nat (max (int (length xs) + start) 0)) xs
      else drop (nat start) xs)"

definition addMessage :: "Message \<Rightarrow> Memory \<Rightarrow> Memory" where
  "addMessage m mem =
     (let msgs = messages mem @ [m] in
      if int (length msgs) > maxMessages mem
      then mem\<lparr> messages := slice (- maxMessages mem) msgs \<rparr>
      else mem\<lparr> messages := msgs \<rparr>)"

section \<open>The agent loop (src/agent/base.ts)\<close>

text \<open>
  The fields of an agent.  The counters are JavaScript numbers that hold integers.  The
  model client \<open>llm\<close> is not a field here: the model call is an argument of the functions
  that make it.  \<open>step\<close> is abstract in \<open>BaseAgent\<close>, so \<open>run\<close> takes it as an
  argument: a function from the agent to what the step returns or throws and the agent
  it leaves.
\<close>

record BaseAgent =
  name :: string
  description :: "string option"
  systemPrompt :: "string option"
  nextStepPrompt :: "string option"
  memory :: Memory
  state :: AgentState
  maxSteps :: int
  currentStep :: int
  duplicateThreshold :: int

record AgentConfig =
  cfg_description :: "string option"
  cfg_systemPrompt :: "string option"
  cfg_nextStepPrompt :: "string option"
  cfg_memory :: "Memory option"
  cfg_maxSteps :: "int option"
  cfg_duplicateThreshold :: "int option"

text \<open>\<open>x || d\<close> on an optional number: undefined and 0 give the default.\<close>

fun or_default :: "int option \<Rightarrow> int \<Rightarrow> int" where
  "or_default None d = d"
| "or_default (Some n) d = (if n = 0 then d else n)"

definition new_BaseAgent :: "string \<Rightarrow> AgentConfig \<Rightarrow> BaseAgent" where
  "new_BaseAgent n config =
     \<lparr> name = n,
       description = cfg_description config,
       systemPrompt = cfg_systemPrompt config,
       nextStepPrompt = cfg_nextStepPrompt config,
       memory = (case cfg_memory config of None \<Rightarrow> new_Memory 100 | Some m \<Rightarrow> m),
       state = IDLE,
       maxSteps = or_default (cfg_maxSteps config) 10,
       currentStep = 0,
       duplicateThreshold = or_default (cfg_duplicateThreshold config) 2 \<rparr>"

type_synonym ('a, 'r) action = "'a BaseAgent_scheme \<Rightarrow> (exn + 'r) \<times> 'a BaseAgent_scheme"

text \<open>
  \<open>withState\<close>: the callback may not return (it holds the run loop), hence the option.
  Every \<open>AgentState\<close> is one of the enumeration's values, so the validity check passes.
\<close>

definition withState :: "AgentState \<Rightarrow> ('a BaseAgent_scheme \<Rightarrow> ((exn + 'r) \<times> 'a BaseAgent_scheme) option)
                          \<Rightarrow> 'a BaseAgent_scheme \<Rightarrow> ((exn + 'r) \<times> 'a BaseAgent_scheme) option" where
  "withState newState callback a =
     (let previousState = state a in
      case callback (a\<lparr> state := newState \<rparr>) of
        None \<Rightarrow> None
      | Some (Inr v, a') \<Rightarrow> Some (Inr v, a'\<lparr> state := previousState \<rparr>)
      | Some (Inl e, a') \<Rightarrow> Some (Inl e, (a'\<lparr> state := ERROR \<rparr>)\<lparr> state := previousState \<rparr>))"

definition updateMemory :: "MessageRole \<Rightarrow> string \<Rightarrow> string option \<Rightarrow> string option
                             \<Rightarrow> 'a BaseAgent_scheme \<Rightarrow> 'a BaseAgent_scheme" where
  "updateMemory r c opt_name opt_tool_call_id a =
     (let m = (case r of
                 User \<Rightarrow> userMessage c
               | System \<Rightarrow> systemMessage c
               | Assistant \<Rightarrow> assistantMessage (Some c)
               | Tool \<Rightarrow> toolMessage c (if given opt_name then the opt_name else ''unknown'')
                           (if given opt_tool_call_id then the opt_tool_call_id else ''unknown''))
      in a\<lparr> memory := addMessage m (memory a) \<rparr>)"

definition stuckPrompt :: string where
  "stuckPrompt = ''    Observed duplicate responses. Consider new strategies and avoid repeating ineffective paths already attempted.''"

text \<open>A template literal prints an undefined prompt as \<open>undefined\<close>.\<close>

fun template :: "string option \<Rightarrow> string" where
  "template None = ''undefined''"
| "template (Some s) = s"

definition handleStuckState :: "'a BaseAgent_scheme \<Rightarrow> 'a BaseAgent_scheme" where
  "handleStuckState a = a\<lparr> nextStepPrompt := Some (stuckPrompt @ nl @ template (nextStepPrompt a)) \<rparr>"

text \<open>
  The counting loop of \<open>isStuck\<close>, \<open>for (let i = length - 2; i >= 0; i--)\<close>; the third
  argument is \<open>i + 1\<close>.
\<close>

fun countLoop :: "Message list \<Rightarrow> Message \<Rightarrow> nat \<Rightarrow> int \<Rightarrow> int" where
  "countLoop msgs lastMessage 0 duplicateCount = duplicateCount"
| "countLoop msgs lastMessage (Suc i) duplicateCount =
     (let msg = msgs ! i in
      if role msg = Assistant \<and> content msg = content lastMessage
      then countLoop msgs lastMessage i (duplicateCount + 1)
      else countLoop msgs lastMessage i duplicateCount)"

definition isStuck :: "'a BaseAgent_scheme \<Rightarrow> bool" where
  "isStuck a =
     (let msgs = messages (memory a) in
      if length msgs < 2 then False
      else
        (let lastMessage = msgs ! (length msgs - 1) in
         if \<not> given (content lastMessage) then False
         else countLoop msgs lastMessage (length msgs - 1) 0 \<ge> duplicateThreshold a))"

text \<open>
  The \<open>while\<close> loop of \<open>run\<close>.  A step may change any field of the agent, the counters
  included, so the loop need not end: \<open>None\<close> is a loop that runs forever.
\<close>

partial_function (option) run_loop ::
  "('a, string) action \<Rightarrow> 'a BaseAgent_scheme \<Rightarrow> string list
     \<Rightarrow> ((exn + string list) \<times> 'a BaseAgent_scheme) option" where
  "run_loop step a results =
     (if currentStep a < maxSteps a \<and> state a \<noteq> FINISHED then
        (let a1 = a\<lparr> currentStep := currentStep a + 1 \<rparr> in
         case step a1 of
           (Inl e, a2) \<Rightarrow> Some (Inl e, a2)
         | (Inr stepResult, a2) \<Rightarrow>
             (let a3 = (if isStuck a2 then handleStuckState a2 else a2) in
              run_loop step a3
                (results @ [''Step '' @ show_int (currentStep a3) @ '': '' @ stepResult])))
      else Some (Inr results, a))"

declare run_loop.simps [code]

definition run_body :: "('a, string) action \<Rightarrow> 'a BaseAgent_scheme
                          \<Rightarrow> ((exn + string) \<times> 'a BaseAgent_scheme) option" where
  "run_body step a =
     (case run_loop step a [] of
        None \<Rightarrow> None
      | Some (Inl e, a') \<Rightarrow> Some (Inl e, a')
      | Some (Inr results, a') \<Rightarrow>
          (let results' = (if currentStep a' \<ge> maxSteps a'
                           then results @ [''Terminated: Reached max steps ('' @
                                           show_int (maxSteps a') @ '')'']
                           else results)
           in Some (Inr (if length results' \<noteq> 0 then join nl results' else ''No steps executed''), a')))"

definition run :: "('a, string) action \<Rightarrow> string option \<Rightarrow> 'a BaseAgent_scheme
                     \<Rightarrow> ((exn + string) \<times> 'a BaseAgent_scheme) option" where
  "run step request a =
     (if state a \<noteq> IDLE then
        Some (Inl (Error (''Cannot run agent from state: '' @ state_name (state a))), a)
      else
        (let a0 = (if given request then updateMemory User (the request) None None a else a)
         in withState RUNNING (run_body step) a0))"

section \<open>Tool collections (src/tool/tool-collection.ts)\<close>

text \<open>
  A tool is an object with a name and an \<open>execute\<close> method; \<open>'j\<close> is the type of parsed
  JSON arguments.  Tools keep state of their own (the planning tool its plans): the
  state of all tool objects of a collection is \<open>tool_state\<close>, of type \<open>'w\<close>, which
  \<open>execute\<close> reads and returns.
\<close>

record ('j, 'w) BaseTool =
  tool_name :: string
  tool_execute :: "'j \<Rightarrow> 'w \<Rightarrow> (exn + ToolResult) \<times> 'w"

record ('j, 'w) ToolCollection =
  tools :: "('j, 'w) BaseTool list"
  toolMap :: "string \<rightharpoonup> ('j, 'w) BaseTool"
  tool_state :: 'w

text \<open>\<open>new Map(entries)\<close>: of two entries with one key the later one stays.\<close>

definition new_ToolCollection :: "('j, 'w) BaseTool list \<Rightarrow> 'w \<Rightarrow> ('j, 'w) ToolCollection" where
  "new_ToolCollection ts w =
     \<lparr> tools = ts, toolMap = map_of (rev (map (\<lambda>t. (tool_name t, t)) ts)), tool_state = w \<rparr>"

definition ToolFailure :: "string \<Rightarrow> ToolResult" where
  "ToolFailure msg = \<lparr> r_output = JNull, r_error = JStr msg, r_system = JNull \<rparr>"

definition getTool :: "('j, 'w) ToolCollection \<Rightarrow> string \<Rightarrow> ('j, 'w) BaseTool option" where
  "getTool tc n = toolMap tc n"

text \<open>\<open>toParams\<close> lists one schema per tool; the model keeps the tool's name of it.\<close>

definition toParams :: "('j, 'w) ToolCollection \<Rightarrow> string list" where
  "toParams tc = map tool_name (tools tc)"

definition collection_execute :: "('j, 'w) ToolCollection \<Rightarrow> string \<Rightarrow> 'j
                                   \<Rightarrow> ToolResult \<times> ('j, 'w) ToolCollection" where
  "collection_execute tc n toolInput =
     (case toolMap tc n of
        None \<Rightarrow> (ToolFailure (''Tool '' @ n @ '' is invalid''), tc)
      | Some t \<Rightarrow>
          (case tool_execute t toolInput (tool_state tc) of
             (Inr result, w) \<Rightarrow> (result, tc\<lparr> tool_state := w \<rparr>)
           | (Inl (ToolErr m), w) \<Rightarrow> (ToolFailure m, tc\<lparr> tool_state := w \<rparr>)
           | (Inl e, w) \<Rightarrow> (ToolFailure (''Unknown error: '' @ String_exn e), tc\<lparr> tool_state := w \<rparr>)))"

section \<open>The tool-calling agent (src/agent/react.ts, src/agent/toolcall.ts)\<close>

datatype ToolChoice = TC_none | TC_auto | TC_required

record LLMResponse =
  resp_content :: "string option"
  resp_tool_calls :: "ToolCall list option"

text \<open>
  The two boundaries of the agent: the model call \<open>llm.askTool(messages, systemMsgs,
  tools, toolChoice)\<close>, which may throw, and \<open>JSON.parse\<close>, which gives \<open>None\<close> where it
  throws.
\<close>

record 'j Env =
  askTool :: "Message list \<Rightarrow> Message list option \<Rightarrow> string list \<Rightarrow> ToolChoice \<Rightarrow> exn + LLMResponse"
  parseJSON :: "string \<Rightarrow> 'j option"

record ('j, 'w) ToolCallAgent = BaseAgent +
  availableTools :: "('j, 'w) ToolCollection option"
  toolChoices :: ToolChoice
  specialToolNames :: "string list"
  toolCalls :: "ToolCall list"

record ToolCallConfig =
  tc_description :: "string option"
  tc_systemPrompt :: "string option"
  tc_nextStepPrompt :: "string option"
  tc_maxSteps :: "int option"
  tc_toolChoices :: "ToolChoice option"
  tc_specialToolNames :: "string list option"

definition SYSTEM_PROMPT :: string where
  "SYSTEM_PROMPT = ''You are an agent that can execute tool calls''"

definition NEXT_STEP_PROMPT :: string where
  "NEXT_STEP_PROMPT = ''If you want to stop interaction, use `terminate` tool/function call.''"

definition TOOL_CALL_REQUIRED :: string where
  "TOOL_CALL_REQUIRED = ''Tool calls required but none provided''"

text \<open>
  The constructor leaves \<open>availableTools\<close> unassigned (its assignment is commented out);
  the field is public and its owner sets it afterwards.
\<close>

definition new_ToolCallAgent :: "string \<Rightarrow> ToolCallConfig \<Rightarrow> ('j, 'w) ToolCallAgent" where
  "new_ToolCallAgent n config =
     \<lparr> name = n,
       description = Some (if given (tc_description config) then the (tc_description config)
                           else ''an agent that can execute tool calls.''),
       systemPrompt = Some (if given (tc_systemPrompt config) then the (tc_systemPrompt config)
                            else SYSTEM_PROMPT),
       nextStepPrompt = Some (if given (tc_nextStepPrompt config) then the (tc_nextStepPrompt config)
                              else NEXT_STEP_PROMPT),
       memory = new_Memory 100,
       state = IDLE,
       maxSteps = or_default (Some (or_default (Some (or_default (tc_maxSteps config) 30)) 10)) 10,
       currentStep = 0,
       duplicateThreshold = 2,
       availableTools = None,
       toolChoices = (case tc_toolChoices config of None \<Rightarrow> TC_auto | Some c \<Rightarrow> c),
       specialToolNames = (case tc_specialToolNames config of None \<Rightarrow> [''terminate''] | Some ns \<Rightarrow> ns),
       toolCalls = [] \<rparr>"

text \<open>\<open>this.memory.addMessage(m)\<close> on the agent.\<close>

definition remember :: "Message \<Rightarrow> ('j, 'w) ToolCallAgent \<Rightarrow> ('j, 'w) ToolCallAgent" where
  "remember m a = a\<lparr> memory := addMessage m (memory a) \<rparr>"

text \<open>
  \<open>think\<close> never throws: what the model call throws, and the read of an unassigned
  \<open>availableTools\<close>, are inside its \<open>try\<close>.
\<close>

definition think :: "'j Env \<Rightarrow> ('j, 'w) ToolCallAgent \<Rightarrow> bool \<times> ('j, 'w) ToolCallAgent" where
  "think env a =
     (let a1 = (if given (nextStepPrompt a)
                then a\<lparr> memory := (memory a)\<lparr> messages := messages (memory a) @
                                                   [userMessage (the (nextStepPrompt a))] \<rparr> \<rparr>
                else a);
          asked = (case availableTools a1 of
                     None \<Rightarrow> Inl (TypeError (''Cannot read properties of undefined (reading '' @ sq @ ''toParams'' @ sq @ '')''))
                   | Some tc \<Rightarrow>
                       askTool env (messages (memory a1))
                         (if given (systemPrompt a1) then Some [systemMessage (the (systemPrompt a1))] else None)
                         (toParams tc) (toolChoices a1))
      in case asked of
           Inl err \<Rightarrow>
             (False, remember (assistantMessage (Some (''Error encountered while processing: '' @
                        (if message err \<noteq> [] then message err else String_exn err)))) a1)
         | Inr response \<Rightarrow>
             (let calls = (case resp_tool_calls response of None \<Rightarrow> [] | Some cs \<Rightarrow> cs);
                  a2 = a1\<lparr> toolCalls := calls \<rparr>
              in if toolChoices a2 = TC_none then
                   (if given (resp_content response)
                    then (True, remember (assistantMessage (resp_content response)) a2)
                    else (False, a2))
                 else
                   (let assistantMsg = (if length calls > 0
                                        then fromToolCalls calls (resp_content response)
                                        else assistantMessage (resp_content response));
                        a3 = remember assistantMsg a2
                    in if toolChoices a3 = TC_required \<and> length calls = 0 then (True, a3)
                       else if toolChoices a3 = TC_auto \<and> length calls = 0
                         then (given (resp_content response), a3)
                       else (length calls > 0, a3))))"

text \<open>\<open>toLowerCase\<close> on the letters A to Z; tool names are ASCII.\<close>

definition toLowerCase :: "string \<Rightarrow> string" where
  "toLowerCase s = map (\<lambda>c. let n = (of_char c :: nat) in
                             if 65 \<le> n \<and> n \<le> 90 then char_of (n + 32) else c) s"

definition isSpecialTool :: "('j, 'w) ToolCallAgent \<Rightarrow> string \<Rightarrow> bool" where
  "isSpecialTool a n = (toLowerCase n \<in> set (map toLowerCase (specialToolNames a)))"

definition shouldFinishExecution :: "string \<Rightarrow> ToolResult \<Rightarrow> bool" where
  "shouldFinishExecution n result = True"

definition handleSpecialTool :: "string \<Rightarrow> ToolResult \<Rightarrow> ('j, 'w) ToolCallAgent \<Rightarrow> ('j, 'w) ToolCallAgent" where
  "handleSpecialTool n result a =
     (if \<not> isSpecialTool a n then a
      else if shouldFinishExecution n result then a\<lparr> state := FINISHED \<rparr>
      else a)"

text \<open>
  \<open>String(result.output)\<close> is inside the \<open>try\<close> of \<open>executeTool\<close>: its \<open>TypeError\<close> is caught
  and reported in the result text, after the tool has run and before the special tools
  are looked at.  \<open>warning_sign\<close> is the sign that begins that report, in UTF-8.
\<close>

definition warning_sign :: string where
  "warning_sign = [CHR 0xE2, CHR 0x9A, CHR 0xA0, CHR 0xEF, CHR 0xB8, CHR 0x8F]"

definition executeTool :: "'j Env \<Rightarrow> ToolCall \<Rightarrow> ('j, 'w) ToolCallAgent
                            \<Rightarrow> (exn + string) \<times> ('j, 'w) ToolCallAgent" where
  "executeTool env command a =
     (let n = fname (call_function command) in
      if n = [] then (Inr ''Error: Invalid command format'', a)
      else case availableTools a of
        None \<Rightarrow> (Inl (TypeError (''Cannot read properties of undefined (reading '' @ sq @ ''getTool'' @ sq @ '')'')), a)
      | Some tc \<Rightarrow>
          (case getTool tc n of
             None \<Rightarrow> (Inr (''Error: Unknown tool '' @ sq @ n @ sq), a)
           | Some availableTool \<Rightarrow>
               (case parseJSON env (if arguments (call_function command) \<noteq> []
                                    then arguments (call_function command) else ''{}'') of
                  None \<Rightarrow> (Inr (''Error parsing arguments for '' @ n @ '': Invalid JSON format''), a)
                | Some args \<Rightarrow>
                    (let (result, tc') = collection_execute tc n args;
                         a1 = a\<lparr> availableTools := Some tc' \<rparr>
                     in if truthy (r_output result) then
                          (case ToString (r_output result) of
                             None \<Rightarrow>
                               (Inr (''Error: '' @ warning_sign @ '' Tool '' @ sq @ n @ sq @
                                     '' encountered a problem: Cannot convert object to primitive value''), a1)
                           | Some text \<Rightarrow>
                               (Inr (''Observed output of cmd `'' @ n @ ''` executed:'' @ nl @ text),
                                handleSpecialTool n result a1))
                        else
                          (Inr (''Cmd `'' @ n @ ''` completed with no output''),
                           handleSpecialTool n result a1)))))"

text \<open>The loop of \<open>act\<close> over the proposed tool calls, in the order received.\<close>

fun actLoop :: "'j Env \<Rightarrow> ToolCall list \<Rightarrow> string list \<Rightarrow> ('j, 'w) ToolCallAgent
                 \<Rightarrow> (exn + string list) \<times> ('j, 'w) ToolCallAgent" where
  "actLoop env [] results a = (Inr results, a)"
| "actLoop env (command # rest) results a =
     (case executeTool env command a of
        (Inl e, a1) \<Rightarrow> (Inl e, a1)
      | (Inr result, a1) \<Rightarrow>
          actLoop env rest (results @ [result])
            (remember (toolMessage result (fname (call_function command)) (call_id command)) a1))"

definition act :: "'j Env \<Rightarrow> ('j, 'w) ToolCallAgent \<Rightarrow> (exn + string) \<times> ('j, 'w) ToolCallAgent" where
  "act env a =
     (if length (toolCalls a) = 0 then
        (if toolChoices a = TC_required then (Inl (Error TOOL_CALL_REQUIRED), a)
         else if messages (memory a) = [] then
           (Inl (TypeError (''Cannot read properties of undefined (reading '' @ sq @ ''content'' @ sq @ '')'')), a)
         else
           (let c = content (messages (memory a) ! (length (messages (memory a)) - 1))
            in (Inr (if given c then the c else ''No content or commands to execute''), a)))
      else
        (case actLoop env (toolCalls a) [] a of
           (Inl e, a1) \<Rightarrow> (Inl e, a1)
         | (Inr results, a1) \<Rightarrow> (Inr (join (nl @ nl) results), a1)))"

definition ReAct_step :: "'j Env \<Rightarrow> ('j, 'w) ToolCallAgent \<Rightarrow> (exn + string) \<times> ('j, 'w) ToolCallAgent" where
  "ReAct_step env a =
     (let (shouldAct, a1) = think env a in
      if \<not> shouldAct then (Inr ''Thinking complete - no action needed'', a1)
      else act env a1)"

section \<open>The plan a command addresses, and example inputs\<close>

text \<open>
  \<open>get\<close> and \<open>mark_step\<close> address the plan named by \<open>plan_id\<close> when it is given and the
  active plan otherwise.
\<close>

definition resolved_plan :: "PlanningTool \<Rightarrow> string option \<Rightarrow> Plan option" where
  "resolved_plan t planId =
     (if given planId then map_of (plans t) (the planId)
      else if given (currentPlanId t) then map_of (plans t) (the (currentPlanId t))
      else None)"

definition trip :: Plan where
  "trip = \<lparr> plan_id = ''p1'', title = ''Trip'', steps = [''Book flight'', ''Book hotel''],
            step_statuses = [completed, in_progress], step_notes = [''paid'', ''''] \<rparr>"

definition trip_store :: PlanningTool where
  "trip_store = \<lparr> plans = [(''p1'', trip)], currentPlanId = Some ''p1'' \<rparr>"


definition trip_updated :: Plan where
  "trip_updated = \<lparr> plan_id = ''p1'', title = ''Trip'',
       steps = [''Book flight'', ''Rent car'', ''Pack''],
       step_statuses = [completed, not_started, not_started],
       step_notes = ['''', '''', ''''] \<rparr>"

definition mk_args :: "string \<Rightarrow> PlanningArgs" where
  "mk_args c = \<lparr> arg_command = c, arg_plan_id = None, arg_title = None, arg_steps = JNull,
      arg_step_index = JNull, arg_step_status = None, arg_step_notes = None \<rparr>"

definition session :: "PlanningArgs list" where
  "session = [ (mk_args ''create'')\<lparr> arg_plan_id := Some ''p1'', arg_title := Some ''Trip'',
                  arg_steps := JArr [JStr ''Book flight'', JStr ''Book hotel''] \<rparr>,
               (mk_args ''mark_step'')\<lparr> arg_step_index := JNum 0, arg_step_status := Some ''completed'' \<rparr>,
               (mk_args ''mark_step'')\<lparr> arg_step_index := JNum 5 \<rparr>,
               (mk_args ''update'')\<lparr> arg_plan_id := Some ''p1'',
                  arg_steps := JArr [JStr ''Book flight'', JStr ''Rent car'', JStr ''Pack''] \<rparr> ]"

definition empty_output :: ToolResult where
  "empty_output = \<lparr> r_output = JStr '''', r_error = JNull, r_system = JNull \<rparr>"

definition no_output :: ToolResult where
  "no_output = \<lparr> r_output = JNull, r_error = JNull, r_system = JNull \<rparr>"

definition idle_agent :: BaseAgent where
  "idle_agent = new_BaseAgent ''worker''
     \<lparr> cfg_description = None, cfg_systemPrompt = None, cfg_nextStepPrompt = None,
       cfg_memory = None, cfg_maxSteps = None, cfg_duplicateThreshold = None \<rparr>"

definition failing_step :: "(unit, string) action" where
  "failing_step a = (Inl (Error ''step failed''), a)"

definition quiet_step :: "(unit, string) action" where
  "quiet_step a = (Inr ''ok'', a)"

definition looping_agent :: BaseAgent where
  "looping_agent = idle_agent\<lparr> memory := \<lparr> messages = [assistantMessage (Some ''again''),
       assistantMessage (Some ''again''), assistantMessage (Some ''again'')], maxMessages = 100 \<rparr>,
     state := RUNNING, maxSteps := 1 \<rparr>"

definition repeating_agent :: BaseAgent where
  "repeating_agent = idle_agent\<lparr> memory := \<lparr> messages = [assistantMessage (Some ''''),
       assistantMessage (Some ''''), fromToolCalls [] (Some '''')], maxMessages = 100 \<rparr> \<rparr>"

text \<open>
  A tool that records the arguments of each execution in the tool state, a model
  response that carries both text and a call of that tool, and an agent with the
  policy \<open>none\<close> whose owner has given it the tool.
\<close>

definition echo_tool :: "(string, string list) BaseTool" where
  "echo_tool = \<lparr> tool_name = ''echo'',
                 tool_execute = (\<lambda>args w. (Inr \<lparr> r_output = JStr ''done'', r_error = JNull,
                                                  r_system = JNull \<rparr>, w @ [args])) \<rparr>"

definition echo_call :: ToolCall where
  "echo_call = \<lparr> call_id = ''call_1'', call_type = ''function'',
                 call_function = \<lparr> fname = ''echo'', arguments = ''{}'' \<rparr> \<rparr>"

definition chatty_env :: "string Env" where
  "chatty_env = \<lparr> askTool = (\<lambda>msgs sys ts choice.
                     Inr \<lparr> resp_content = Some ''hello'', resp_tool_calls = Some [echo_call] \<rparr>),
                  parseJSON = Some \<rparr>"

definition no_tools_agent :: "(string, string list) ToolCallAgent" where
  "no_tools_agent =
     (new_ToolCallAgent ''toolcall''
        \<lparr> tc_description = None, tc_systemPrompt = None, tc_nextStepPrompt = None,
          tc_maxSteps = None, tc_toolChoices = Some TC_none, tc_specialToolNames = None \<rparr>)
     \<lparr> availableTools := Some (new_ToolCollection [echo_tool] []) \<rparr>"

text \<open>
  A \<open>mark_step\<close> whose step index is the text \<open>length\<close>, and what it leaves of the trip
  and of a new plan.
\<close>

definition trip_cut :: Plan where
  "trip_cut = trip\<lparr> step_notes := [''paid''] \<rparr>"

definition resizing_session :: "PlanningArgs list" where
  "resizing_session =
     [ (mk_args ''create'')\<lparr> arg_plan_id := Some ''p1'', arg_title := Some ''Trip'',
          arg_steps := JArr [JStr ''Book flight'', JStr ''Book hotel''] \<rparr>,
       (mk_args ''mark_step'')\<lparr> arg_step_index := JStr ''length'', arg_step_notes := Some ''5'' \<rparr> ]"

definition trip_resized :: Plan where
  "trip_resized = \<lparr> plan_id = ''p1'', title = ''Trip'',
       steps = [''Book flight'', ''Book hotel''],
       step_statuses = [not_started, not_started],
       step_notes = ['''', '''', '''', '''', ''''] \<rparr>"

section \<open>The lengths of the three lists of a plan\<close>

lemma list_all_update:
  "list_all P al \<Longrightarrow> P (k, v) \<Longrightarrow> list_all P (AList.update k v al)"
  by (induction al) auto

lemma list_all_delete:
  "list_all P al \<Longrightarrow> list_all P (AList.delete k al)"
  by (induction al) auto

lemma store_ok_lookup:
  "store_ok t \<Longrightarrow> map_of (plans t) k = Some p \<Longrightarrow> plan_ok p"
  unfolding store_ok_def
  by (auto simp: list_all_iff dest!: map_of_SomeD)

lemma store_ok_get:
  "store_ok t \<Longrightarrow> has t k \<Longrightarrow> plan_ok (get t k)"
  unfolding has_def get_def
  by (auto intro: store_ok_lookup)

lemma store_ok_update:
  "store_ok t \<Longrightarrow> plan_ok p \<Longrightarrow> store_ok (t\<lparr> plans := AList.update k p (plans t) \<rparr>)"
  unfolding store_ok_def by (simp add: list_all_update)

lemma store_ok_currentPlanId: "store_ok (t\<lparr> currentPlanId := c \<rparr>) = store_ok t"
  by (simp add: store_ok_def)

lemma statuses_ok_get:
  "statuses_ok t \<Longrightarrow> has t k \<Longrightarrow> length (step_statuses (get t k)) = length (steps (get t k))"
  unfolding has_def get_def statuses_ok_def
  by (cases "map_of (plans t) k") (auto simp: list_all_iff dest!: map_of_SomeD)

lemma statuses_ok_update:
  "statuses_ok t \<Longrightarrow> length (step_statuses p) = length (steps p) \<Longrightarrow>
   statuses_ok (t\<lparr> plans := AList.update k p (plans t) \<rparr>)"
  unfolding statuses_ok_def by (simp add: list_all_update)

lemma statuses_ok_currentPlanId: "statuses_ok (t\<lparr> currentPlanId := c \<rparr>) = statuses_ok t"
  by (simp add: statuses_ok_def)

lemma updateLoop_length:
  "updateLoop ss old k (a, b) = (x, y) \<Longrightarrow> length x = length a + k \<and> length y = length b + k"
  by (induction k arbitrary: a b) (auto simp: Let_def split: if_splits)

lemma store_ok_createPlan: "store_ok t \<Longrightarrow> store_ok (snd (createPlan t planId ttl stps))"
  unfolding createPlan_def
  by (simp add: Let_def plan_ok_def store_ok_update store_ok_currentPlanId)

lemma statuses_ok_createPlan: "statuses_ok t \<Longrightarrow> statuses_ok (snd (createPlan t planId ttl stps))"
  unfolding createPlan_def
  by (simp add: Let_def statuses_ok_update statuses_ok_currentPlanId)

lemma store_ok_updatePlan:
  assumes "store_ok t"
  shows "store_ok (snd (updatePlan t planId ttl stps))"
proof (cases "given planId \<and> has t (the planId)")
  case False
  then show ?thesis using assms by (auto simp: updatePlan_def)
next
  case True
  define plan1 where "plan1 = (if given ttl then (get t (the planId))\<lparr> title := the ttl \<rparr> else get t (the planId))"
  define ss where "ss = map asString (elements stps)"
  obtain x y where xy: "updateLoop ss plan1 (length ss) ([], []) = (x, y)"
    by (cases "updateLoop ss plan1 (length ss) ([], [])") auto
  have ok1: "plan_ok plan1"
    using store_ok_get [OF assms, of "the planId"] True by (simp add: plan1_def plan_ok_def)
  have ok2: "plan_ok (plan1\<lparr> steps := ss, step_statuses := x, step_notes := y \<rparr>)"
    using updateLoop_length [OF xy] by (simp add: plan_ok_def)
  show ?thesis
    using True xy ok1 ok2 assms
    by (simp add: updatePlan_def Let_def store_ok_update flip: plan1_def ss_def)
qed

lemma statuses_ok_updatePlan:
  assumes "statuses_ok t"
  shows "statuses_ok (snd (updatePlan t planId ttl stps))"
proof (cases "given planId \<and> has t (the planId)")
  case False
  then show ?thesis using assms by (auto simp: updatePlan_def)
next
  case True
  define plan1 where "plan1 = (if given ttl then (get t (the planId))\<lparr> title := the ttl \<rparr> else get t (the planId))"
  define ss where "ss = map asString (elements stps)"
  obtain x y where xy: "updateLoop ss plan1 (length ss) ([], []) = (x, y)"
    by (cases "updateLoop ss plan1 (length ss) ([], [])") auto
  have ok1: "length (step_statuses plan1) = length (steps plan1)"
    using statuses_ok_get [OF assms, of "the planId"] True by (simp add: plan1_def)
  have ok2: "length x = length ss"
    using updateLoop_length [OF xy] by simp
  show ?thesis
    using True xy ok1 ok2 assms
    by (simp add: updatePlan_def Let_def statuses_ok_update flip: plan1_def ss_def)
qed

lemma set_status_length:
  "set_status statuses k v = Inr statuses' \<Longrightarrow> length statuses' = length statuses"
  by (cases k) auto

lemma statuses_ok_markStep:
  assumes "statuses_ok t"
  shows "statuses_ok (snd (markStep t planId stepIndex stepStatus stepNotes))"
proof -
  define k where "k = (if \<not> given planId then the (currentPlanId t) else the planId)"
  show ?thesis
  proof (cases "has t k")
    case False
    then show ?thesis using assms by (simp add: markStep_def Let_def flip: k_def)
  next
    case True
    have len: "length (step_statuses (get t k)) = length (steps (get t k))"
      by (rule statuses_ok_get [OF assms True])
    show ?thesis
      using assms len
      by (auto simp: markStep_def Let_def statuses_ok_update simp flip: k_def
          split: option.splits sum.splits dest: set_status_length)
  qed
qed

lemma js_lt_integer [simp]: "js_lt (Fin (of_int i)) m = (i < m)"
  by simp

lemma js_ge_integer [simp]: "js_ge (Fin (of_int i)) m = (m \<le> i)"
  by simp

lemma store_ok_markStep:
  assumes "store_ok t" and "is_integer_or_null stepIndex"
  shows "store_ok (snd (markStep t planId stepIndex stepStatus stepNotes))"
proof -
  define k where "k = (if \<not> given planId then the (currentPlanId t) else the planId)"
  show ?thesis
  proof (cases "has t k")
    case False
    then show ?thesis using assms by (simp add: markStep_def Let_def flip: k_def)
  next
    case True
    have ok: "plan_ok (get t k)" by (rule store_ok_get [OF assms(1) True])
    show ?thesis
    proof (cases stepIndex)
      case JNull
      then show ?thesis using assms by (simp add: markStep_def Let_def)
    next
      case (JNum i)
      show ?thesis
      proof (cases "i < 0 \<or> int (length (steps (get t k))) \<le> i")
        case True
        then show ?thesis using assms(1) JNum by (auto simp: markStep_def Let_def simp flip: k_def)
      next
        case False
        then have "nat i < length (step_notes (get t k))" "0 \<le> i"
          using ok by (auto simp: plan_ok_def)
        then show ?thesis
          using assms(1) JNum ok False
          by (auto simp: markStep_def Let_def plan_ok_def store_ok_update simp flip: k_def)
      qed
    qed (use assms(2) in simp_all)
  qed
qed

lemma store_ok_deletePlan: "store_ok t \<Longrightarrow> store_ok (snd (deletePlan t planId))"
  unfolding deletePlan_def store_ok_def
  by (auto simp: list_all_delete)

lemma statuses_ok_deletePlan: "statuses_ok t \<Longrightarrow> statuses_ok (snd (deletePlan t planId))"
  unfolding deletePlan_def statuses_ok_def
  by (auto simp: list_all_delete)

lemma store_ok_listPlans: "store_ok t \<Longrightarrow> store_ok (snd (listPlans t))"
  unfolding listPlans_def by simp

lemma store_ok_getPlan: "store_ok t \<Longrightarrow> store_ok (snd (getPlan t planId))"
  unfolding getPlan_def by (simp add: Let_def)

lemma store_ok_setActivePlan: "store_ok t \<Longrightarrow> store_ok (snd (setActivePlan t planId))"
  unfolding setActivePlan_def by (simp add: store_ok_def)

lemma statuses_ok_listPlans: "statuses_ok t \<Longrightarrow> statuses_ok (snd (listPlans t))"
  unfolding listPlans_def by simp

lemma statuses_ok_getPlan: "statuses_ok t \<Longrightarrow> statuses_ok (snd (getPlan t planId))"
  unfolding getPlan_def by (simp add: Let_def)

lemma statuses_ok_setActivePlan: "statuses_ok t \<Longrightarrow> statuses_ok (snd (setActivePlan t planId))"
  unfolding setActivePlan_def by (simp add: statuses_ok_def)

lemma store_ok_execute: "store_ok t \<Longrightarrow> integer_index a \<Longrightarrow> store_ok (snd (execute t a))"
  unfolding execute_def integer_index_def
  using store_ok_createPlan store_ok_updatePlan store_ok_markStep store_ok_deletePlan
      store_ok_listPlans store_ok_getPlan store_ok_setActivePlan
  by simp

lemma statuses_ok_execute: "statuses_ok t \<Longrightarrow> statuses_ok (snd (execute t a))"
  unfolding execute_def
  using statuses_ok_createPlan statuses_ok_updatePlan statuses_ok_markStep statuses_ok_deletePlan
      statuses_ok_listPlans statuses_ok_getPlan statuses_ok_setActivePlan
  by simp

lemma store_ok_run_commands:
  "store_ok t \<Longrightarrow> list_all integer_index cmds \<Longrightarrow> store_ok (run_commands t cmds)"
  by (induction cmds arbitrary: t) (simp_all add: store_ok_execute)

lemma statuses_ok_run_commands: "statuses_ok t \<Longrightarrow> statuses_ok (run_commands t cmds)"
  by (induction cmds arbitrary: t) (simp_all add: statuses_ok_execute)

text \<open>
  Claim C6, as the code has it.  Whatever commands the planning tool has executed since
  it was constructed, and whether each of them succeeded or failed, every plan in the
  plan table has as many statuses as it has steps; and when the step index of every
  \<open>mark_step\<close> among them was null or an integer, every plan has as many notes as it has
  steps, too.  (A prefix of a command sequence is a command sequence, so this is the
  state after each command.)
\<close>

theorem planning_lists_same_length:
  "(\<forall>(k, p) \<in> set (plans (run_commands new_PlanningTool cmds)).
      length (step_statuses p) = length (steps p)) \<and>
   (list_all integer_index cmds \<longrightarrow>
      (\<forall>(k, p) \<in> set (plans (run_commands new_PlanningTool cmds)).
         length (step_notes p) = length (steps p)))"
proof (intro conjI impI)
  have "statuses_ok new_PlanningTool"
    by (simp add: statuses_ok_def new_PlanningTool_def)
  then have "statuses_ok (run_commands new_PlanningTool cmds)"
    by (rule statuses_ok_run_commands)
  then show "\<forall>(k, p) \<in> set (plans (run_commands new_PlanningTool cmds)).
      length (step_statuses p) = length (steps p)"
    by (simp add: statuses_ok_def list_all_iff)
next
  assume "list_all integer_index cmds"
  moreover have "store_ok new_PlanningTool"
    by (simp add: store_ok_def new_PlanningTool_def)
  ultimately have "store_ok (run_commands new_PlanningTool cmds)"
    by (simp add: store_ok_run_commands)
  then show "\<forall>(k, p) \<in> set (plans (run_commands new_PlanningTool cmds)).
         length (step_notes p) = length (steps p)"
    by (auto simp: store_ok_def plan_ok_def list_all_iff)
qed

text \<open>
  A session of a create, a successful and a failing \<open>mark_step\<close> and an update leaves
  one plan of three steps, three statuses and three notes.
\<close>

theorem planning_lists_same_length_witness:
  "list_all integer_index session \<and>
   (''p1'', trip_updated) \<in> set (plans (run_commands new_PlanningTool session)) \<and>
   length (step_statuses trip_updated) = length (steps trip_updated) \<and>
   length (step_notes trip_updated) = length (steps trip_updated)"
proof -
  have i: "list_all integer_index session"
    by (simp add: session_def mk_args_def integer_index_def)
  have m: "(''p1'', trip_updated) \<in> set (plans (run_commands new_PlanningTool session))"
    by (simp add: session_def mk_args_def execute_def createPlan_def markStep_def updatePlan_def
        new_PlanningTool_def has_def get_def status_of_def trip_updated_def Let_def note_at_def)
  with planning_lists_same_length [of session] i show ?thesis by blast
qed

text \<open>
  A plan of two steps is created, and then a step is marked whose index is the text
  \<open>length\<close>, with the notes \<open>5\<close>.  As a number the index is \<open>NaN\<close>, of which both range
  tests are false; as a property key it is the length of the notes array, which the
  assignment sets to 5.  The plan is left with two steps, two statuses and five notes.
\<close>

theorem notes_resized_by_length_index:
  "(''p1'', trip_resized) \<in> set (plans (run_commands new_PlanningTool resizing_session)) \<and>
   length (steps trip_resized) = 2 \<and> length (step_statuses trip_resized) = 2 \<and>
   length (step_notes trip_resized) = 5"
  by (simp add: resizing_session_def mk_args_def execute_def createPlan_def markStep_def
      new_PlanningTool_def has_def get_def trip_resized_def Let_def
      StringToNumber_def trim_def isWhite_def decimal_literal_def isDigitOf_def radix_value_def
      exponent_part_def digits_value_def key_of_string_def eval_nat_numeral)

section \<open>Creating a plan\<close>

lemma createPlan_fails:
  "\<not> given planId \<or> has t (the planId) \<or> \<not> given ttl \<or> \<not> isArray stps
     \<or> \<not> list_all isString (elements stps)
   \<Longrightarrow> \<exists>e. createPlan t planId ttl stps = (Inl e, t)"
  by (cases stps) (auto simp: createPlan_def)

lemma createPlan_success:
  assumes "given planId" "\<not> has t (the planId)" "given ttl" "isArray stps"
    "list_all isString (elements stps)"
  shows "\<exists>out t' p. createPlan t planId ttl stps = (Inr out, t') \<and>
           map_of (plans t') (the planId) = Some p \<and>
           steps p = map asString (elements stps) \<and>
           step_statuses p = replicate (length (steps p)) not_started \<and>
           step_notes p = replicate (length (steps p)) [] \<and>
           currentPlanId t' = planId"
  using assms by (cases stps) (auto simp: createPlan_def Let_def update_conv')

text \<open>
  Claim C2.  \<open>create\<close> is to fail when the steps are not a non-empty list of strings,
  and its own error message says so; but its test \<open>!steps\<close> is false for an empty
  array, which is an object.  On a new tool, \<open>create("p1", "Trip", [])\<close> succeeds: it
  stores a plan without steps and makes it the active plan.
\<close>

theorem createPlan_empty_steps_succeeds:
  "createPlan new_PlanningTool (Some ''p1'') (Some ''Trip'') (JArr []) =
     (Inr (PlanCreated ''p1'' \<lparr> plan_id = ''p1'', title = ''Trip'', steps = [],
                                 step_statuses = [], step_notes = [] \<rparr>),
      \<lparr> plans = [(''p1'', \<lparr> plan_id = ''p1'', title = ''Trip'', steps = [],
                            step_statuses = [], step_notes = [] \<rparr>)],
        currentPlanId = Some ''p1'' \<rparr>)"
  by (simp add: createPlan_def new_PlanningTool_def has_def Let_def)

text \<open>
  The empty array passes each of the four guards of \<open>create\<close>, the one on the steps
  included.
\<close>

theorem createPlan_empty_steps_succeeds_witness:
  "given (Some ''p1'') \<and> \<not> has new_PlanningTool ''p1'' \<and> given (Some ''Trip'') \<and>
   truthy (JArr []) \<and> isArray (JArr []) \<and> list_all isString (elements (JArr [])) \<and>
   (\<exists>out t'. createPlan new_PlanningTool (Some ''p1'') (Some ''Trip'') (JArr []) = (Inr out, t') \<and>
              map_option steps (map_of (plans t') ''p1'') = Some [] \<and>
              currentPlanId t' = Some ''p1'')"
  using createPlan_empty_steps_succeeds by (simp add: has_def new_PlanningTool_def)

section \<open>Marking a step\<close>

text \<open>
  Claim C4, as the code has it.  A \<open>mark_step\<close> call without a step index, or with an
  integer index below 0 or not below the number of steps of the plan it addresses, fails
  with an error and returns the tool as it was: no plan, and not the active pointer
  either, is changed.
\<close>

theorem markStep_bad_index_fails:
  assumes "stepIndex = JNull \<or>
           (\<exists>p i. resolved_plan t planId = Some p \<and> stepIndex = JNum i \<and>
                  (i < 0 \<or> int (length (steps p)) \<le> i))"
  shows "\<exists>e. markStep t planId stepIndex stepStatus stepNotes = (Inl e, t)"
  using assms
  by (auto simp: markStep_def resolved_plan_def Let_def has_def get_def split: if_splits)

theorem markStep_bad_index_fails_witness:
  "resolved_plan trip_store None = Some trip \<and> int (length (steps trip)) \<le> 2 \<and>
   (\<exists>e. markStep trip_store None (JNum 2) (Some ''completed'') (Some ''done'') = (Inl e, trip_store)) \<and>
   (\<exists>e. markStep trip_store None JNull (Some ''completed'') (Some ''done'') = (Inl e, trip_store))"
proof -
  have r: "resolved_plan trip_store None = Some trip"
    by (simp add: resolved_plan_def trip_store_def)
  have l: "int (length (steps trip)) \<le> 2"
    by (simp add: trip_def)
  from r l have h: "JNum 2 = JNull \<or>
     (\<exists>p i. resolved_plan trip_store None = Some p \<and> JNum 2 = JNum i \<and>
            (i < 0 \<or> int (length (steps p)) \<le> i))"
    by blast
  show ?thesis
    using r l markStep_bad_index_fails [OF h, of "Some ''completed''" "Some ''done''"]
      markStep_bad_index_fails [of JNull trip_store None "Some ''completed''" "Some ''done''"]
    by simp
qed

text \<open>
  The text \<open>length\<close> is no index of the two steps of the trip, yet a \<open>mark_step\<close> with
  that index and the notes \<open>1\<close> succeeds, and cuts the notes of the trip down to one.
\<close>

theorem markStep_length_index_succeeds:
  "resolved_plan trip_store None = Some trip \<and>
   ToNumber (JStr ''length'') = Some NaN \<and>
   markStep trip_store None (JStr ''length'') None (Some ''1'') =
     (Inr (StepUpdated (JStr ''length'') ''p1'' trip_cut),
      trip_store\<lparr> plans := [(''p1'', trip_cut)] \<rparr>) \<and>
   step_notes trip = [''paid'', ''''] \<and> step_notes trip_cut = [''paid'']"
  by (simp add: resolved_plan_def markStep_def trip_store_def trip_def trip_cut_def has_def get_def Let_def
      StringToNumber_def trim_def isWhite_def decimal_literal_def isDigitOf_def radix_value_def
      exponent_part_def digits_value_def key_of_string_def)




section \<open>Updating a plan\<close>

lemma updateLoop_eq:
  "k \<le> length ss \<Longrightarrow>
   updateLoop ss old k (a, b) =
     (a @ map (\<lambda>i. if i < length (steps old) \<and> ss ! i = steps old ! i
                   then step_statuses old ! i else not_started) [length ss - k ..< length ss],
      b @ map (\<lambda>i. if i < length (steps old) \<and> ss ! i = steps old ! i
                   then note_at (step_notes old) i else []) [length ss - k ..< length ss])"
proof (induction k arbitrary: a b)
  case 0
  then show ?case by simp
next
  case (Suc k)
  then have k: "k \<le> length ss" by simp
  have upt: "[length ss - Suc k ..< length ss] = (length ss - Suc k) # [length ss - k ..< length ss]"
    using Suc.prems by (simp add: upt_conv_Cons Suc_diff_Suc)
  show ?case
    by (simp add: Let_def Suc.IH [OF k] upt del: upt_Suc)
qed

text \<open>
  Claim C5.  In a store whose plans have their three lists of one length, an \<open>update\<close>
  of a stored plan that supplies a list of step texts succeeds
  and stores that list; at every index \<open>i\<close> of the new list, if \<open>i\<close> is within the old
  list and the new text at \<open>i\<close> equals the old text at \<open>i\<close>, status and notes at \<open>i\<close>
  are the old ones, and otherwise (another text, or \<open>i\<close> beyond the old list) the status
  is \<open>not_started\<close> and the notes are empty.
\<close>

theorem updatePlan_keeps_unchanged_steps:
  assumes "store_ok t" "given planId" "map_of (plans t) (the planId) = Some old"
    and "isArray stps" "list_all isString (elements stps)"
  shows "\<exists>out t' new. updatePlan t planId ttl stps = (Inr out, t') \<and>
           map_of (plans t') (the planId) = Some new \<and>
           steps new = map asString (elements stps) \<and>
           length (step_statuses new) = length (steps new) \<and>
           length (step_notes new) = length (steps new) \<and>
           (\<forall>i < length (steps new).
              if i < length (steps old) \<and> steps new ! i = steps old ! i
              then step_statuses new ! i = step_statuses old ! i \<and>
                   step_notes new ! i = step_notes old ! i
              else step_statuses new ! i = not_started \<and> step_notes new ! i = [])"
proof -
  define ss where "ss = map asString (elements stps)"
  define plan1 where "plan1 = (if given ttl then old\<lparr> title := the ttl \<rparr> else old)"
  have g: "get t (the planId) = old" "has t (the planId)"
    using assms(3) by (simp_all add: get_def has_def)
  have tr: "truthy stps" using assms(4) by (cases stps) simp_all
  have p1: "steps plan1 = steps old" "step_statuses plan1 = step_statuses old"
    "step_notes plan1 = step_notes old"
    by (simp_all add: plan1_def)
  have "plan_ok old" using store_ok_lookup [OF assms(1,3)] .
  then have nt: "\<And>i. i < length (steps old) \<Longrightarrow> note_at (step_notes old) i = step_notes old ! i"
    by (simp add: note_at_def plan_ok_def)
  have loop: "updateLoop ss plan1 (length ss) ([], []) =
     (map (\<lambda>i. if i < length (steps old) \<and> ss ! i = steps old ! i
               then step_statuses old ! i else not_started) [0 ..< length ss],
      map (\<lambda>i. if i < length (steps old) \<and> ss ! i = steps old ! i
               then note_at (step_notes old) i else []) [0 ..< length ss])"
    using updateLoop_eq [of "length ss" ss plan1 "[]" "[]"] by (simp add: p1)
  show ?thesis
    using assms(2,4,5) g tr loop nt
    by (simp add: updatePlan_def Let_def update_conv' flip: ss_def plan1_def)
qed

text \<open>
  The trip keeps status and notes of its unchanged first step; the replaced second
  step and the added third step start afresh.
\<close>

theorem updatePlan_keeps_unchanged_steps_witness:
  "store_ok trip_store \<and> given (Some ''p1'') \<and>
   map_of (plans trip_store) (the (Some ''p1'')) = Some trip \<and>
   isArray (JArr [JStr ''Book flight'', JStr ''Rent car'', JStr ''Pack'']) \<and>
   list_all isString (elements (JArr [JStr ''Book flight'', JStr ''Rent car'', JStr ''Pack''])) \<and>
   (\<exists>out t' new.
      updatePlan trip_store (Some ''p1'') None
        (JArr [JStr ''Book flight'', JStr ''Rent car'', JStr ''Pack'']) = (Inr out, t') \<and>
      map_of (plans t') ''p1'' = Some new \<and>
      steps new = [''Book flight'', ''Rent car'', ''Pack''] \<and>
      step_statuses new ! 0 = completed \<and> step_notes new ! 0 = ''paid'' \<and>
      step_statuses new ! 1 = not_started \<and> step_notes new ! 1 = [] \<and>
      step_statuses new ! 2 = not_started \<and> step_notes new ! 2 = [])"
proof -
  let ?stps = "JArr [JStr ''Book flight'', JStr ''Rent car'', JStr ''Pack'']"
  have h1: "store_ok trip_store"
    by (simp add: store_ok_def trip_store_def plan_ok_def trip_def)
  have h2: "given (Some ''p1'')" by simp
  have h3: "map_of (plans trip_store) (the (Some ''p1'')) = Some trip"
    by (simp add: trip_store_def)
  have h4: "isArray ?stps" by simp
  have h5: "list_all isString (elements ?stps)" by simp
  obtain out t' new where u: "updatePlan trip_store (Some ''p1'') None ?stps = (Inr out, t')"
    and m: "map_of (plans t') (the (Some ''p1'')) = Some new"
    and s: "steps new = map asString (elements ?stps)"
    and a: "\<forall>i < length (steps new).
              if i < length (steps trip) \<and> steps new ! i = steps trip ! i
              then step_statuses new ! i = step_statuses trip ! i \<and>
                   step_notes new ! i = step_notes trip ! i
              else step_statuses new ! i = not_started \<and> step_notes new ! i = []"
    using updatePlan_keeps_unchanged_steps [OF h1 h2 h3 h4 h5, of None] by blast
  have s': "steps new = [''Book flight'', ''Rent car'', ''Pack'']" using s by simp
  have "step_statuses new ! 0 = completed \<and> step_notes new ! 0 = ''paid''"
    using a [rule_format, of 0] by (simp add: s' trip_def)
  moreover have "step_statuses new ! 1 = not_started \<and> step_notes new ! 1 = []"
    using a [rule_format, of 1] by (simp add: s' trip_def)
  moreover have "step_statuses new ! 2 = not_started \<and> step_notes new ! 2 = []"
    using a [rule_format, of 2] by (simp add: s' trip_def)
  ultimately show ?thesis
    using h1 h2 h3 h4 h5 u m s' by auto
qed

section \<open>Combining tool results\<close>

lemma combineFields_texts:
  "is_text a \<Longrightarrow> is_text b \<Longrightarrow>
   combineFields a b True =
     Inr (if truthy a \<and> truthy b then JStr (asString a @ asString b)
          else if truthy a then a else b)"
  by (cases a; cases b) (simp_all add: combineFields_def js_plus_def template_js_def)

text \<open>
  Claim C8, as the code has it.  When every field of the two results is null or a text,
  \<open>combine\<close> returns a result.  In each of the three fields, two texts that are both
  non-empty are concatenated, this one first; a text that is non-empty in one operand
  only is kept as it is; and when this operand's field is null or empty the result has
  the other operand's field.  The field combiner fails on two truthy values when it is
  called with concatenation off, which \<open>combine\<close> never does.
\<close>

theorem combine_fields:
  "(is_text (r_output this) \<and> is_text (r_output other) \<and>
    is_text (r_error this) \<and> is_text (r_error other) \<and>
    is_text (r_system this) \<and> is_text (r_system other) \<longrightarrow>
    (\<exists>res. combine this other = Inr res \<and>
      (truthy (r_output this) \<and> truthy (r_output other) \<longrightarrow>
         r_output res = JStr (asString (r_output this) @ asString (r_output other))) \<and>
      (truthy (r_error this) \<and> truthy (r_error other) \<longrightarrow>
         r_error res = JStr (asString (r_error this) @ asString (r_error other))) \<and>
      (truthy (r_system this) \<and> truthy (r_system other) \<longrightarrow>
         r_system res = JStr (asString (r_system this) @ asString (r_system other))) \<and>
      (truthy (r_output this) \<and> \<not> truthy (r_output other) \<longrightarrow> r_output res = r_output this) \<and>
      (truthy (r_error this) \<and> \<not> truthy (r_error other) \<longrightarrow> r_error res = r_error this) \<and>
      (truthy (r_system this) \<and> \<not> truthy (r_system other) \<longrightarrow> r_system res = r_system this) \<and>
      (\<not> truthy (r_output this) \<longrightarrow> r_output res = r_output other) \<and>
      (\<not> truthy (r_error this) \<longrightarrow> r_error res = r_error other) \<and>
      (\<not> truthy (r_system this) \<longrightarrow> r_system res = r_system other))) \<and>
   (truthy field \<and> truthy otherField \<longrightarrow>
      combineFields field otherField False = Inl (Error ''Cannot combine tool results''))"
proof (intro conjI impI)
  assume t: "is_text (r_output this) \<and> is_text (r_output other) \<and>
    is_text (r_error this) \<and> is_text (r_error other) \<and>
    is_text (r_system this) \<and> is_text (r_system other)"
  then show "\<exists>res. combine this other = Inr res \<and>
      (truthy (r_output this) \<and> truthy (r_output other) \<longrightarrow>
         r_output res = JStr (asString (r_output this) @ asString (r_output other))) \<and>
      (truthy (r_error this) \<and> truthy (r_error other) \<longrightarrow>
         r_error res = JStr (asString (r_error this) @ asString (r_error other))) \<and>
      (truthy (r_system this) \<and> truthy (r_system other) \<longrightarrow>
         r_system res = JStr (asString (r_system this) @ asString (r_system other))) \<and>
      (truthy (r_output this) \<and> \<not> truthy (r_output other) \<longrightarrow> r_output res = r_output this) \<and>
      (truthy (r_error this) \<and> \<not> truthy (r_error other) \<longrightarrow> r_error res = r_error this) \<and>
      (truthy (r_system this) \<and> \<not> truthy (r_system other) \<longrightarrow> r_system res = r_system this) \<and>
      (\<not> truthy (r_output this) \<longrightarrow> r_output res = r_output other) \<and>
      (\<not> truthy (r_error this) \<longrightarrow> r_error res = r_error other) \<and>
      (\<not> truthy (r_system this) \<longrightarrow> r_system res = r_system other)"
    by (simp add: combine_def combineFields_texts)
next
  assume "truthy field \<and> truthy otherField"
  then show "combineFields field otherField False = Inl (Error ''Cannot combine tool results'')"
    by (simp add: combineFields_def)
qed

theorem combine_fields_witness:
  "is_text (JStr ''ab'') \<and> is_text (JStr ''cd'') \<and> is_text (JStr ''e'') \<and> is_text JNull \<and>
   truthy (JStr ''ab'') \<and> truthy (JStr ''cd'') \<and>
   combine \<lparr> r_output = JStr ''ab'', r_error = JStr ''e'', r_system = JNull \<rparr>
           \<lparr> r_output = JStr ''cd'', r_error = JNull, r_system = JNull \<rparr>
     = Inr \<lparr> r_output = JStr ''abcd'', r_error = JStr ''e'', r_system = JNull \<rparr> \<and>
   combineFields (JStr ''ab'') (JStr ''cd'') False = Inl (Error ''Cannot combine tool results'')"
proof -
  let ?a = "\<lparr> r_output = JStr ''ab'', r_error = JStr ''e'', r_system = JNull \<rparr>"
  let ?b = "\<lparr> r_output = JStr ''cd'', r_error = JNull, r_system = JNull \<rparr>"
  have g: "truthy (JStr ''ab'') \<and> truthy (JStr ''cd'')" by simp
  from combine_fields [of ?a ?b "JStr ''ab''" "JStr ''cd''"]
  obtain res where "combine ?a ?b = Inr res" "r_output res = JStr ''abcd''"
    "r_error res = JStr ''e''" "r_system res = JNull"
    and f: "combineFields (JStr ''ab'') (JStr ''cd'') False = Inl (Error ''Cannot combine tool results'')"
    by auto
  then have "combine ?a ?b = Inr \<lparr> r_output = JStr ''abcd'', r_error = JStr ''e'', r_system = JNull \<rparr>"
    by (cases res) simp
  with g f show ?thesis by simp
qed

text \<open>
  A result whose output is the empty string has content, by \<open>hasContent\<close>; combined with
  a result without any content it gives a result without content: the output field,
  populated in one operand only, has not stayed as it was.
\<close>

theorem combine_drops_empty_field:
  "hasContent empty_output \<and> \<not> hasContent no_output \<and>
   r_output empty_output \<noteq> JNull \<and> r_output no_output = JNull \<and>
   combine empty_output no_output = Inr no_output \<and>
   r_output no_output \<noteq> r_output empty_output"
  by (simp add: combine_def combineFields_def hasContent_def empty_output_def no_output_def)

text \<open>
  Outputs that are not texts are joined by \<open>+\<close> and tested by \<open>||\<close> as JavaScript does it:
  the numbers 1 and 2 give 3, and the number 0 combined with null gives null.
\<close>

lemma combine_adds_numbers:
  "combine \<lparr> r_output = JNum 1, r_error = JNull, r_system = JNull \<rparr>
           \<lparr> r_output = JNum 2, r_error = JNull, r_system = JNull \<rparr>
     = Inr \<lparr> r_output = JNum 3, r_error = JNull, r_system = JNull \<rparr>"
  by (simp add: combine_def combineFields_def js_plus_def)

lemma combine_drops_zero:
  "combine \<lparr> r_output = JNum 0, r_error = JNull, r_system = JNull \<rparr>
           \<lparr> r_output = JNull, r_error = JNull, r_system = JNull \<rparr>
     = Inr \<lparr> r_output = JNull, r_error = JNull, r_system = JNull \<rparr>"
  by (simp add: combine_def combineFields_def)

section \<open>The run loop\<close>

lemma run_loop_stop:
  "\<not> (currentStep a < maxSteps a \<and> state a \<noteq> FINISHED) \<Longrightarrow>
   run_loop step a results = Some (Inr results, a)"
  by (subst run_loop.simps) auto

lemma run_loop_fail:
  assumes "currentStep a < maxSteps a" "state a \<noteq> FINISHED"
    "step (a\<lparr> currentStep := currentStep a + 1 \<rparr>) = (Inl e, a2)"
  shows "run_loop step a results = Some (Inl e, a2)"
  using assms by (subst run_loop.simps) simp

lemma run_loop_stuck:
  assumes "currentStep a < maxSteps a" "state a \<noteq> FINISHED"
    "step (a\<lparr> currentStep := currentStep a + 1 \<rparr>) = (Inr r, a2)" "isStuck a2"
  shows "run_loop step a results =
         run_loop step (a2\<lparr> nextStepPrompt := Some (stuckPrompt @ nl @ template (nextStepPrompt a2)) \<rparr>)
           (results @ [''Step '' @ show_int (currentStep a2) @ '': '' @ r])"
  using assms by (subst run_loop.simps) (simp add: handleStuckState_def)

lemma handleStuckState_counters:
  "currentStep (handleStuckState a) = currentStep a"
  "maxSteps (handleStuckState a) = maxSteps a"
  "state (handleStuckState a) = state a"
  by (simp_all add: handleStuckState_def)

text \<open>
  Whatever \<open>run\<close> returns, it leaves the agent in the state it found it in: the
  \<open>finally\<close> block of \<open>withState\<close> runs after the \<open>catch\<close> block.
\<close>

lemma run_restores_state:
  "run step request a = Some (r, a') \<Longrightarrow> state a' = state a"
  by (auto simp: run_def withState_def Let_def updateMemory_def
      split: if_splits option.splits sum.splits prod.splits)

text \<open>
  Claim C1.  An exception thrown by \<open>step()\<close> is to leave the agent in state \<open>error\<close>,
  and the \<open>catch\<close> block of \<open>withState\<close> assigns that state; but the \<open>finally\<close> block
  then assigns the state from before the run.  A new, idle agent whose first step
  throws: \<open>run\<close> hands the exception to its caller, one step is counted, and the agent
  is idle again.
\<close>

theorem run_after_failing_step:
  "state idle_agent = IDLE \<and>
   run failing_step None idle_agent =
     Some (Inl (Error ''step failed''), idle_agent\<lparr> currentStep := 1 \<rparr>) \<and>
   state (idle_agent\<lparr> currentStep := 1 \<rparr>) = IDLE"
  by (simp add: run_def withState_def run_body_def
        run_loop_fail [where ?a2.0 = "idle_agent\<lparr> state := RUNNING, currentStep := 1 \<rparr>"]
        idle_agent_def new_BaseAgent_def failing_step_def)

section \<open>Detecting a stuck agent\<close>

lemma countLoop_filter:
  "k \<le> length msgs \<Longrightarrow>
   countLoop msgs l k c =
     c + int (length (filter (\<lambda>m. role m = Assistant \<and> content m = content l) (take k msgs)))"
proof (induction k arbitrary: c)
  case 0
  then show ?case by simp
next
  case (Suc k)
  then have "k < length msgs" by simp
  then have "take (Suc k) msgs = take k msgs @ [msgs ! k]"
    by (simp add: take_Suc_conv_app_nth)
  with Suc show ?case by (simp add: Let_def)
qed

lemma isStuck_iff:
  "isStuck a \<longleftrightarrow>
     (2 \<le> length (messages (memory a)) \<and>
      given (content (last (messages (memory a)))) \<and>
      duplicateThreshold a \<le>
        int (length (filter (\<lambda>m. role m = Assistant \<and>
                                  content m = content (last (messages (memory a))))
                       (butlast (messages (memory a))))))"
proof (cases "length (messages (memory a)) < 2")
  case True
  then show ?thesis by (simp add: isStuck_def)
next
  case False
  then have ne: "messages (memory a) \<noteq> []" by auto
  show ?thesis
    using False
    by (simp add: isStuck_def Let_def last_conv_nth [OF ne] butlast_conv_take countLoop_filter)
qed

text \<open>
  Claim C7, as the code has it.  \<open>isStuck\<close> is true exactly when the memory holds at
  least two messages, the content of the most recent one is neither null nor the empty
  string, and the earlier messages of role assistant with exactly that content number
  at least the duplicate threshold.  When it is true after a step of the run loop, the
  loop goes on with the corrective instruction and a line break put before the
  next-step prompt.
\<close>

theorem isStuck_counts_repeats:
  "(isStuck a \<longleftrightarrow>
      (2 \<le> length (messages (memory a)) \<and>
       given (content (last (messages (memory a)))) \<and>
       duplicateThreshold a \<le>
         int (length (filter (\<lambda>m. role m = Assistant \<and>
                                   content m = content (last (messages (memory a))))
                        (butlast (messages (memory a))))))) \<and>
   (currentStep a < maxSteps a \<and> state a \<noteq> FINISHED \<and>
    step (a\<lparr> currentStep := currentStep a + 1 \<rparr>) = (Inr r, a2) \<and> isStuck a2 \<longrightarrow>
      run_loop step a results =
      run_loop step (a2\<lparr> nextStepPrompt := Some (stuckPrompt @ nl @ template (nextStepPrompt a2)) \<rparr>)
        (results @ [''Step '' @ show_int (currentStep a2) @ '': '' @ r]))"
  using isStuck_iff [of a] run_loop_stuck [of a step r a2 results] by blast

text \<open>
  An agent that has said the same thing three times, with one step left: the step
  changes nothing, the agent is found stuck, and the loop ends with the prefixed prompt.
\<close>

theorem isStuck_counts_repeats_witness:
  "currentStep looping_agent < maxSteps looping_agent \<and> state looping_agent \<noteq> FINISHED \<and>
   quiet_step (looping_agent\<lparr> currentStep := currentStep looping_agent + 1 \<rparr>) =
     (Inr ''ok'', looping_agent\<lparr> currentStep := 1 \<rparr>) \<and>
   isStuck (looping_agent\<lparr> currentStep := 1 \<rparr>) \<and>
   run_loop quiet_step looping_agent [] =
     Some (Inr [''Step 1: ok''],
           looping_agent\<lparr> currentStep := 1,
                          nextStepPrompt := Some (stuckPrompt @ nl @ ''undefined'') \<rparr>)"
proof -
  let ?a2 = "looping_agent\<lparr> currentStep := 1 \<rparr>"
  have h1: "currentStep looping_agent < maxSteps looping_agent"
    by (simp add: looping_agent_def idle_agent_def new_BaseAgent_def)
  have h2: "state looping_agent \<noteq> FINISHED"
    by (simp add: looping_agent_def)
  have h3: "quiet_step (looping_agent\<lparr> currentStep := currentStep looping_agent + 1 \<rparr>) = (Inr ''ok'', ?a2)"
    by (simp add: quiet_step_def looping_agent_def idle_agent_def new_BaseAgent_def)
  have h4: "isStuck ?a2"
    using isStuck_counts_repeats [of ?a2 quiet_step "''ok''" ?a2 "[]", THEN conjunct1]
    by (simp add: looping_agent_def idle_agent_def new_BaseAgent_def assistantMessage_def new_Message_def)
  have "run_loop quiet_step looping_agent [] =
        run_loop quiet_step (?a2\<lparr> nextStepPrompt := Some (stuckPrompt @ nl @ template (nextStepPrompt ?a2)) \<rparr>)
          ([] @ [''Step '' @ show_int (currentStep ?a2) @ '': '' @ ''ok''])"
    using isStuck_counts_repeats [of looping_agent quiet_step "''ok''" ?a2 "[]", THEN conjunct2] h1 h2 h3 h4
    by blast
  also have "\<dots> = Some (Inr [''Step 1: ok''],
           looping_agent\<lparr> currentStep := 1,
                          nextStepPrompt := Some (stuckPrompt @ nl @ ''undefined'') \<rparr>)"
    by (subst run_loop.simps)
       (simp add: looping_agent_def idle_agent_def new_BaseAgent_def show_int_def show_nat.simps digit_def)
  finally show ?thesis using h1 h2 h3 h4 by simp
qed

text \<open>
  Three assistant messages whose content is the empty string, the last of them built by
  \<open>fromToolCalls\<close>: the latest content is not null and two earlier assistant messages
  have exactly that content, which reaches the threshold 2; yet \<open>isStuck\<close> is false,
  for \<open>!lastMessage.content\<close> holds of the empty string.
\<close>

theorem isStuck_empty_content:
  "\<not> (isStuck repeating_agent \<longleftrightarrow>
        (2 \<le> length (messages (memory repeating_agent)) \<and>
         content (last (messages (memory repeating_agent))) \<noteq> None \<and>
         duplicateThreshold repeating_agent \<le>
           int (length (filter (\<lambda>m. role m = Assistant \<and>
                                     content m = content (last (messages (memory repeating_agent))))
                          (butlast (messages (memory repeating_agent)))))))"
  by (simp add: isStuck_def repeating_agent_def idle_agent_def new_BaseAgent_def
      assistantMessage_def fromToolCalls_def new_Message_def)

section \<open>The step counter\<close>

lemma run_loop_counter:
  assumes "run_loop step a results = Some y"
  shows "(\<forall>x. currentStep x \<le> currentStep (snd (step x))) \<longrightarrow> currentStep a \<le> currentStep (snd y)"
proof (rule run_loop.raw_induct [where P = "\<lambda>step a results y.
         (\<forall>x. currentStep x \<le> currentStep (snd (step x))) \<longrightarrow> currentStep a \<le> currentStep (snd y)",
       OF _ assms])
  fix f :: "('a, string) action \<Rightarrow> 'a BaseAgent_scheme \<Rightarrow> string list
              \<Rightarrow> ((exn + string list) \<times> 'a BaseAgent_scheme) option"
  fix step :: "('a, string) action" and a :: "'a BaseAgent_scheme" and results y
  assume IH: "\<And>step a results y. f step a results = Some y \<Longrightarrow>
      (\<forall>x. currentStep x \<le> currentStep (snd (step x))) \<longrightarrow> currentStep a \<le> currentStep (snd y)"
  assume eq: "(if currentStep a < maxSteps a \<and> state a \<noteq> FINISHED then
        (let a1 = a\<lparr> currentStep := currentStep a + 1 \<rparr> in
         case step a1 of
           (Inl e, a2) \<Rightarrow> Some (Inl e, a2)
         | (Inr stepResult, a2) \<Rightarrow>
             (let a3 = (if isStuck a2 then handleStuckState a2 else a2) in
              f step a3
                (results @ [''Step '' @ show_int (currentStep a3) @ '': '' @ stepResult])))
      else Some (Inr results, a)) = Some y"
  show "(\<forall>x. currentStep x \<le> currentStep (snd (step x))) \<longrightarrow> currentStep a \<le> currentStep (snd y)"
  proof
    assume mono: "\<forall>x. currentStep x \<le> currentStep (snd (step x))"
    show "currentStep a \<le> currentStep (snd y)"
    proof (cases "currentStep a < maxSteps a \<and> state a \<noteq> FINISHED")
      case False
      with eq show ?thesis by auto
    next
      case True
      define a1 where "a1 = a\<lparr> currentStep := currentStep a + 1 \<rparr>"
      obtain r a2 where s: "step a1 = (r, a2)" by (cases "step a1")
      have le: "currentStep a \<le> currentStep a2"
        using mono [rule_format, of a1] s by (simp add: a1_def)
      show ?thesis
      proof (cases r)
        case (Inl e)
        with eq True s have "y = (Inl e, a2)" by (simp add: a1_def)
        with le show ?thesis by simp
      next
        case (Inr stepResult)
        define a3 where "a3 = (if isStuck a2 then handleStuckState a2 else a2)"
        have "f step a3 (results @ [''Step '' @ show_int (currentStep a3) @ '': '' @ stepResult]) = Some y"
          using eq True s Inr by (simp add: a1_def a3_def Let_def)
        then have "currentStep a3 \<le> currentStep (snd y)"
          using IH mono by blast
        moreover have "currentStep a3 = currentStep a2"
          by (simp add: a3_def handleStuckState_counters)
        ultimately show ?thesis using le by simp
      qed
    qed
  qed
qed

text \<open>
  The loop returns when the steps leave \<open>maxSteps\<close> alone and do not lower the counter:
  each round brings the counter closer to the maximum.
\<close>

lemma run_loop_returns:
  assumes mono: "\<And>x. currentStep x \<le> currentStep (snd (step x))"
    and keep: "\<And>x. maxSteps (snd (step x)) = maxSteps x"
  shows "\<exists>y. run_loop step a results = Some y"
proof (induction "nat (maxSteps a - currentStep a)" arbitrary: a results rule: less_induct)
  case less
  show ?case
  proof (cases "currentStep a < maxSteps a \<and> state a \<noteq> FINISHED")
    case False
    then show ?thesis by (simp add: run_loop_stop)
  next
    case True
    define a1 where "a1 = a\<lparr> currentStep := currentStep a + 1 \<rparr>"
    obtain r a2 where s: "step a1 = (r, a2)" by (cases "step a1")
    have le: "currentStep a + 1 \<le> currentStep a2" "maxSteps a2 = maxSteps a"
      using mono [of a1] keep [of a1] s by (simp_all add: a1_def)
    show ?thesis
    proof (cases r)
      case (Inl e)
      then show ?thesis using True s by (subst run_loop.simps) (simp add: a1_def)
    next
      case (Inr stepResult)
      define a3 where "a3 = (if isStuck a2 then handleStuckState a2 else a2)"
      have c: "currentStep a3 = currentStep a2" "maxSteps a3 = maxSteps a2"
        by (simp_all add: a3_def handleStuckState_counters)
      have "nat (maxSteps a3 - currentStep a3) < nat (maxSteps a - currentStep a)"
        using True le c by simp
      from less [OF this]
      obtain y where "run_loop step a3 (results @ [''Step '' @ show_int (currentStep a3) @ '': '' @ stepResult]) = Some y"
        by blast
      then show ?thesis
        using True s Inr by (subst run_loop.simps) (simp add: a1_def a3_def Let_def)
    qed
  qed
qed

lemma run_at_max_steps:
  assumes "state a = IDLE" "maxSteps a \<le> currentStep a"
  shows "run step request a =
           Some (Inr (''Terminated: Reached max steps ('' @ show_int (maxSteps a) @ '')''),
                 if given request then updateMemory User (the request) None None a else a)"
proof -
  define a0 where "a0 = (if given request then updateMemory User (the request) None None a else a)"
  have a0: "state a0 = IDLE" "maxSteps a0 = maxSteps a" "currentStep a0 = currentStep a"
    using assms by (simp_all add: a0_def updateMemory_def Let_def)
  have "run_loop step (a0\<lparr> state := RUNNING \<rparr>) [] = Some (Inr [], a0\<lparr> state := RUNNING \<rparr>)"
    using assms a0 by (simp add: run_loop_stop)
  then have "run_body step (a0\<lparr> state := RUNNING \<rparr>) =
     Some (Inr (''Terminated: Reached max steps ('' @ show_int (maxSteps a) @ '')''), a0\<lparr> state := RUNNING \<rparr>)"
    using assms a0 by (simp add: run_body_def)
  moreover have "a0\<lparr> state := IDLE \<rparr> = a0" using a0(1) by simp
  ultimately have "withState RUNNING (run_body step) a0 =
     Some (Inr (''Terminated: Reached max steps ('' @ show_int (maxSteps a) @ '')''), a0)"
    using a0 by (simp add: withState_def)
  then show ?thesis
    using assms by (simp add: run_def Let_def flip: a0_def)
qed

lemma run_counter:
  assumes mono: "\<And>x. currentStep x \<le> currentStep (snd (step x))"
    and keep: "\<And>x. maxSteps (snd (step x)) = maxSteps x"
  shows "\<exists>r a'. run step request a = Some (r, a') \<and> currentStep a \<le> currentStep a'"
proof (cases "state a = IDLE")
  case False
  then show ?thesis by (simp add: run_def)
next
  case True
  define a0 where "a0 = (if given request then updateMemory User (the request) None None a else a)"
  have a0: "currentStep a0 = currentStep a"
    by (simp add: a0_def updateMemory_def Let_def)
  obtain r a' where l: "run_loop step (a0\<lparr> state := RUNNING \<rparr>) [] = Some (r, a')"
    using run_loop_returns [OF mono keep, of "a0\<lparr> state := RUNNING \<rparr>" "[]"] by auto
  have c: "currentStep a \<le> currentStep a'"
    using run_loop_counter [OF l] mono a0 by auto
  show ?thesis
  proof (cases r)
    case (Inl e)
    then show ?thesis
      using True l c by (simp add: run_def withState_def run_body_def Let_def flip: a0_def)
  next
    case (Inr res)
    then show ?thesis
      using True l c by (simp add: run_def withState_def run_body_def Let_def flip: a0_def)
  qed
qed

text \<open>
  Claim C10.  The step counter is 0 in a new agent and \<open>run\<close> never sets it back.  On
  an idle agent whose counter has reached \<open>maxSteps\<close>, \<open>run\<close> returns at once the one
  line \<open>Terminated: Reached max steps (N)\<close>, whatever \<open>step\<close> is: no step is executed
  and the counter stays.  And with steps that leave \<open>maxSteps\<close> alone and do not lower
  the counter themselves, every call of \<open>run\<close> returns with a counter at least as high
  as it found.
\<close>

theorem run_never_resets_counter:
  "currentStep (new_BaseAgent n config) = 0 \<and>
   (state a = IDLE \<and> maxSteps a \<le> currentStep a \<longrightarrow>
      run step request a =
        Some (Inr (''Terminated: Reached max steps ('' @ show_int (maxSteps a) @ '')''),
              if given request then updateMemory User (the request) None None a else a) \<and>
      currentStep (if given request then updateMemory User (the request) None None a else a)
        = currentStep a) \<and>
   ((\<forall>x. currentStep x \<le> currentStep (snd (step x)) \<and> maxSteps (snd (step x)) = maxSteps x) \<longrightarrow>
      (\<exists>r a'. run step request a = Some (r, a') \<and> currentStep a \<le> currentStep a'))"
proof (intro conjI impI)
  show "currentStep (new_BaseAgent n config) = 0"
    by (simp add: new_BaseAgent_def)
next
  assume "state a = IDLE \<and> maxSteps a \<le> currentStep a"
  then show "run step request a =
        Some (Inr (''Terminated: Reached max steps ('' @ show_int (maxSteps a) @ '')''),
              if given request then updateMemory User (the request) None None a else a)"
    by (simp add: run_at_max_steps)
next
  show "currentStep (if given request then updateMemory User (the request) None None a else a)
        = currentStep a"
    by (simp add: updateMemory_def Let_def)
next
  assume "\<forall>x. currentStep x \<le> currentStep (snd (step x)) \<and> maxSteps (snd (step x)) = maxSteps x"
  then show "\<exists>r a'. run step request a = Some (r, a') \<and> currentStep a \<le> currentStep a'"
    by (intro run_counter) simp_all
qed

theorem run_never_resets_counter_witness:
  "state (idle_agent\<lparr> currentStep := 10 \<rparr>) = IDLE \<and>
   maxSteps (idle_agent\<lparr> currentStep := 10 \<rparr>) \<le> currentStep (idle_agent\<lparr> currentStep := 10 \<rparr>) \<and>
   run quiet_step None (idle_agent\<lparr> currentStep := 10 \<rparr>) =
     Some (Inr ''Terminated: Reached max steps (10)'', idle_agent\<lparr> currentStep := 10 \<rparr>) \<and>
   (\<exists>r a'. run quiet_step (Some ''go'') idle_agent = Some (r, a') \<and>
            currentStep idle_agent \<le> currentStep a')"
proof -
  let ?a = "idle_agent\<lparr> currentStep := 10 \<rparr>"
  have h: "state ?a = IDLE \<and> maxSteps ?a \<le> currentStep ?a"
    by (simp add: idle_agent_def new_BaseAgent_def)
  have q: "\<forall>x::BaseAgent. currentStep x \<le> currentStep (snd (quiet_step x)) \<and>
             maxSteps (snd (quiet_step x)) = maxSteps x"
    by (simp add: quiet_step_def)
  have m: "show_int (maxSteps ?a) = ''10''"
    by (simp add: idle_agent_def new_BaseAgent_def show_int_def show_nat.simps digit_def)
  have "run quiet_step None ?a = Some (Inr ''Terminated: Reached max steps (10)'', ?a)"
    using run_never_resets_counter [of _ _ ?a quiet_step None] h m by simp
  moreover have "\<exists>r a'. run quiet_step (Some ''go'') idle_agent = Some (r, a') \<and>
            currentStep idle_agent \<le> currentStep a'"
    using run_never_resets_counter [of _ _ idle_agent quiet_step "Some ''go''"] q by blast
  ultimately show ?thesis using h by simp
qed

section \<open>The tool-choice policy none\<close>

text \<open>
  With the policy \<open>none\<close> and a model call that returns, \<open>think\<close> answers whether the
  response has text, and keeps the proposed tool calls in \<open>toolCalls\<close>.
\<close>

lemma think_none_policy:
  assumes "toolChoices a = TC_none" "availableTools a = Some tc"
    and "askTool env
           (messages (memory a) @
              (if given (nextStepPrompt a) then [userMessage (the (nextStepPrompt a))] else []))
           (if given (systemPrompt a) then Some [systemMessage (the (systemPrompt a))] else None)
           (toParams tc) TC_none = Inr response"
  shows "fst (think env a) = given (resp_content response) \<and>
         toolCalls (snd (think env a)) =
           (case resp_tool_calls response of None \<Rightarrow> [] | Some cs \<Rightarrow> cs)"
proof -
  consider "given (nextStepPrompt a)" "given (systemPrompt a)"
    | "given (nextStepPrompt a)" "\<not> given (systemPrompt a)"
    | "\<not> given (nextStepPrompt a)" "given (systemPrompt a)"
    | "\<not> given (nextStepPrompt a)" "\<not> given (systemPrompt a)"
    by blast
  then show ?thesis
  proof cases
    case 1
    with assms show ?thesis by (simp add: think_def Let_def remember_def)
  next
    case 2
    with assms show ?thesis by (simp add: think_def Let_def remember_def)
  next
    case 3
    with assms show ?thesis by (simp add: think_def Let_def remember_def)
  next
    case 4
    with assms show ?thesis by (simp add: think_def Let_def remember_def)
  qed
qed

text \<open>
  Claim C3.  With the policy \<open>none\<close> the tool calls a response proposes are to be
  discarded, and \<open>think\<close> warns that tools were not available; but it has stored them in
  \<open>toolCalls\<close> and does not clear them.  For a response with the text \<open>hello\<close> and one
  call of the tool \<open>echo\<close>: \<open>think\<close> returns true with the call still stored, and the
  \<open>act\<close> that follows in the same step executes it, so that the step returns the tool's
  observation and the tool has recorded the execution.
\<close>

theorem none_policy_runs_proposed_tools:
  "toolChoices no_tools_agent = TC_none \<and>
   fst (think chatty_env no_tools_agent) = True \<and>
   toolCalls (snd (think chatty_env no_tools_agent)) = [echo_call] \<and>
   fst (ReAct_step chatty_env no_tools_agent) =
     Inr (''Observed output of cmd `echo` executed:'' @ nl @ ''done'') \<and>
   map_option tool_state (availableTools (snd (ReAct_step chatty_env no_tools_agent))) = Some [''{}'']"
  by (simp add: ReAct_step_def think_def act_def executeTool_def collection_execute_def getTool_def
      handleSpecialTool_def isSpecialTool_def toLowerCase_def remember_def addMessage_def
      no_tools_agent_def new_ToolCallAgent_def new_ToolCollection_def echo_tool_def echo_call_def
      chatty_env_def new_Memory_def toParams_def assistantMessage_def toolMessage_def
      userMessage_def systemMessage_def new_Message_def NEXT_STEP_PROMPT_def SYSTEM_PROMPT_def
      Let_def nl_def)

end
